theory Spec2Isabelle
  imports Main "HOL-Library.Sublist"
begin

section \<open>Strings and the regular expressions of lectio.py\<close>

text \<open>
  A Python \<open>str\<close> is modelled by the bytes of its UTF-8 encoding (\<^typ>\<open>string\<close>).
  The source never measures a string; it compares, concatenates, searches and splits,
  and on UTF-8 these agree with the same operations on code points.  The three
  non-ASCII characters the source writes (U+00C6, U+00E6 and the bullet U+2022) are
  given by their bytes.
\<close>

definition AE_upper :: string where
  "AE_upper = [CHR 0xC3, CHR 0x86]"

definition ae_lower :: string where
  "ae_lower = [CHR 0xC3, CHR 0xA6]"

definition bullet :: string where
  "bullet = [CHR 0xE2, CHR 0x80, CHR 0xA2]"

definition SPACER :: string where
  "SPACER = '' '' @ bullet @ '' ''"

definition AEndret :: string where
  "AEndret = AE_upper @ ''ndret!''"

definition Aflyst :: string where
  "Aflyst = ''Aflyst!''"

text \<open>
  \<open>re.search\<close> is a backtracking matcher.  The fragment of the pattern language that
  lectio.py uses is embedded as a datatype, and matching returns the list of all
  ways to match at the current position, in the order in which a backtracking
  engine tries them; the head of the list is the match Python reports.  A way to
  match is the table of captured groups together with the unread rest of the input.

  \<^item> \<open>Lit\<close> is a literal string;
  \<^item> \<open>Rep p lo hi\<close> is a greedy repetition of a character class: \<open>\d{4}\<close>,
    \<open>\d{1,2}\<close>, \<open>\d+\<close>, \<open>.*\<close>, \<open>[^(]*\<close>, \<open>[0-5]\<close>; the class \<open>p\<close> is a set of
    code points, and one step of the repetition reads one character, that is all
    the bytes of its encoding;
  \<^item> \<open>Seq\<close>, \<open>Alt\<close> are concatenation and \<open>|\<close>;
  \<^item> \<open>Opt\<close> is the greedy \<open>?\<close>;
  \<^item> \<open>Grp n\<close> is the capturing group number \<open>n\<close>.
\<close>

datatype rx =
    Lit string
  | Rep "int \<Rightarrow> bool" nat "nat option"
  | Seq rx rx
  | Alt rx rx
  | Opt rx
  | Grp nat rx

type_synonym captures = "nat \<Rightarrow> string option"

definition no_groups :: captures where
  "no_groups = (\<lambda>n. None)"

text \<open>
  The first character of a text: its code point and the number of bytes that encode
  it.  A byte that starts no well-formed sequence counts as a character of its own.
\<close>

definition continuation :: "int \<Rightarrow> bool" where
  "continuation b = (0x80 \<le> b \<and> b < 0xC0)"

fun utf8_head :: "string \<Rightarrow> (int \<times> nat) option" where
  "utf8_head [] = None"
| "utf8_head (c # cs) =
     (let b = (of_char c :: int); t = (map of_char (take 3 cs) :: int list) in
      if 0xC0 \<le> b \<and> b < 0xE0 \<and> 1 \<le> length t \<and> continuation (t ! 0)
        then Some ((b - 0xC0) * 64 + (t ! 0 - 0x80), 2)
      else if 0xE0 \<le> b \<and> b < 0xF0 \<and> 2 \<le> length t
              \<and> continuation (t ! 0) \<and> continuation (t ! 1)
        then Some (((b - 0xE0) * 64 + (t ! 0 - 0x80)) * 64 + (t ! 1 - 0x80), 3)
      else if 0xF0 \<le> b \<and> b < 0xF8 \<and> 3 \<le> length t
              \<and> continuation (t ! 0) \<and> continuation (t ! 1) \<and> continuation (t ! 2)
        then Some ((((b - 0xF0) * 64 + (t ! 0 - 0x80)) * 64 + (t ! 1 - 0x80)) * 64
                     + (t ! 2 - 0x80), 4)
      else Some (b, 1))"

text \<open>
  What is left of the text after no, one, two, ... characters of the class \<open>p\<close>, for at
  most \<open>k\<close> characters; and the ways to match a repetition of \<open>lo\<close> to \<open>hi\<close> characters,
  the longest first.
\<close>

fun class_rests :: "(int \<Rightarrow> bool) \<Rightarrow> nat \<Rightarrow> string \<Rightarrow> string list" where
  "class_rests p 0 s = [s]"
| "class_rests p (Suc k) s =
     (case utf8_head s of
        None \<Rightarrow> [s]
      | Some (cp, n) \<Rightarrow> if p cp then s # class_rests p k (drop n s) else [s])"

definition rep_rests :: "(int \<Rightarrow> bool) \<Rightarrow> nat \<Rightarrow> nat option \<Rightarrow> string \<Rightarrow> string list" where
  "rep_rests p lo hi s =
     rev (drop lo (class_rests p (case hi of None \<Rightarrow> length s | Some h \<Rightarrow> h) s))"

fun rx_match :: "rx \<Rightarrow> captures \<Rightarrow> string \<Rightarrow> (captures \<times> string) list" where
  "rx_match (Lit l) g s = (if prefix l s then [(g, drop (length l) s)] else [])"
| "rx_match (Rep p lo hi) g s = map (\<lambda>r. (g, r)) (rep_rests p lo hi s)"
| "rx_match (Seq a b) g s = concat (map (\<lambda>(g', s'). rx_match b g' s') (rx_match a g s))"
| "rx_match (Alt a b) g s = rx_match a g s @ rx_match b g s"
| "rx_match (Opt a) g s = rx_match a g s @ [(g, s)]"
| "rx_match (Grp n a) g s =
     map (\<lambda>(g', s'). (g'(n \<mapsto> take (length s - length s') s), s')) (rx_match a g s)"

text \<open>\<open>re.search\<close>: the leftmost position with a match, and there the first match.\<close>

fun re_search :: "rx \<Rightarrow> string \<Rightarrow> (captures \<times> string) option" where
  "re_search r [] = (case rx_match r no_groups [] of [] \<Rightarrow> None | m # _ \<Rightarrow> Some m)"
| "re_search r (c # cs) =
     (case rx_match r no_groups (c # cs) of [] \<Rightarrow> re_search r cs | m # _ \<Rightarrow> Some m)"

text \<open>
  The character classes.  \<open>\d\<close> is the decimal digits of Unicode (the category Nd,
  here of Unicode 14, the table of Python 3.11): they come in runs of ten code points
  with the values 0 to 9, and \<open>decimal_starts\<close> lists where the runs begin.  \<open>.\<close> is
  every character but the newline.
\<close>

definition decimal_starts :: "int list" where
  "decimal_starts =
     [0x30, 0x660, 0x6F0, 0x7C0, 0x966, 0x9E6, 0xA66, 0xAE6, 0xB66, 0xBE6, 0xC66,
      0xCE6, 0xD66, 0xDE6, 0xE50, 0xED0, 0xF20, 0x1040, 0x1090, 0x17E0, 0x1810,
      0x1946, 0x19D0, 0x1A80, 0x1A90, 0x1B50, 0x1BB0, 0x1C40, 0x1C50, 0xA620, 0xA8D0,
      0xA900, 0xA9D0, 0xA9F0, 0xAA50, 0xABF0, 0xFF10, 0x104A0, 0x10D30, 0x11066,
      0x110F0, 0x11136, 0x111D0, 0x112F0, 0x11450, 0x114D0, 0x11650, 0x116C0,
      0x11730, 0x118E0, 0x11950, 0x11C50, 0x11D50, 0x11DA0, 0x16A60, 0x16AC0,
      0x16B50, 0x1D7CE, 0x1D7D8, 0x1D7E2, 0x1D7EC, 0x1D7F6, 0x1E140, 0x1E2F0,
      0x1E950, 0x1FBF0]"

definition decimal_value :: "int \<Rightarrow> nat option" where
  "decimal_value cp =
     map_option (\<lambda>s. nat (cp - s)) (find (\<lambda>s. s \<le> cp \<and> cp < s + 10) decimal_starts)"

definition is_digit :: "int \<Rightarrow> bool" where
  "is_digit cp = (decimal_value cp \<noteq> None)"

definition not_newline :: "int \<Rightarrow> bool" where
  "not_newline cp = (cp \<noteq> 0x0A)"

text \<open>A class such as \<open>[0-5]\<close>, and a pattern for one character of a class.\<close>

definition between :: "char \<Rightarrow> char \<Rightarrow> int \<Rightarrow> bool" where
  "between lo hi cp = (of_char lo \<le> cp \<and> cp \<le> of_char hi)"

definition one :: "(int \<Rightarrow> bool) \<Rightarrow> rx" where
  "one p = Rep p 1 (Some 1)"

definition digits :: "nat \<Rightarrow> nat \<Rightarrow> rx" where
  "digits lo hi = Rep is_digit lo (Some hi)"

definition any_text :: rx where
  "any_text = Rep not_newline 0 None"

fun seqs :: "rx list \<Rightarrow> rx" where
  "seqs [] = Lit []"
| "seqs [r] = r"
| "seqs (r # rs) = Seq r (seqs rs)"

subsection \<open>The patterns of the source\<close>

text \<open>\<^verbatim>\<open>\d{1,2}/\d{1,2}-\d{4}\<close>\<close>

definition rx_date :: rx where
  "rx_date = seqs [digits 1 2, Lit ''/'', digits 1 2, Lit ''-'', digits 4 4]"

text \<open>\<^verbatim>\<open>\d{2}:\d{2}\<close>\<close>

definition rx_clock :: rx where
  "rx_clock = seqs [digits 2 2, Lit '':'', digits 2 2]"

text \<open>\<^verbatim>\<open>AEndret!|Aflyst!\<close>, where \<open>AE\<close> stands for the letter U+00C6.\<close>

definition rx_status :: rx where
  "rx_status = Alt (Lit AEndret) (Lit Aflyst)"

text \<open>\<^verbatim>\<open>Lokaler?: \<close> and \<^verbatim>\<open>Lokaler?: (.*)\<close>\<close>

definition rx_is_location :: rx where
  "rx_is_location = seqs [Lit ''Lokale'', Opt (Lit ''r''), Lit '': '']"

definition rx_location :: rx where
  "rx_location = seqs [Lit ''Lokale'', Opt (Lit ''r''), Lit '': '', Grp 1 any_text]"

text \<open>\<^verbatim>\<open>Hold: (.*)\<close> and \<^verbatim>\<open>Ressourcer: (.*)\<close>\<close>

definition rx_groups :: rx where
  "rx_groups = Seq (Lit ''Hold: '') (Grp 1 any_text)"

definition rx_ressources :: rx where
  "rx_ressources = Seq (Lit ''Ressourcer: '') (Grp 1 any_text)"

text \<open>
  \<^verbatim>\<open>\d{1,2}/\d{1,2}-\d{4} (?:Hele dagen|\d{2}:\d{2} til (?:\d{1,2}/\d{1,2}-\d{4} )?\d{2}:\d{2})\<close>
\<close>

definition rx_is_time :: rx where
  "rx_is_time =
     seqs [rx_date, Lit '' '',
           Alt (Lit ''Hele dagen'')
               (seqs [rx_clock, Lit '' til '', Opt (Seq rx_date (Lit '' '')), rx_clock])]"

text \<open>
  \<^verbatim>\<open>(\d{1,2}/\d{1,2}-\d{4})(?: (\d{2}:\d{2}) til (\d{1,2}/\d{1,2}-\d{4})? ?(\d{2}:\d{2}))?\<close>
\<close>

definition rx_time_rest :: rx where
  "rx_time_rest =
     seqs [Lit '' '', Grp 2 rx_clock, Lit '' til '', Opt (Grp 3 rx_date),
           Opt (Lit '' ''), Grp 4 rx_clock]"

definition rx_time :: rx where
  "rx_time = Seq (Grp 1 rx_date) (Opt rx_time_rest)"

text \<open>\<^verbatim>\<open>(?:absid|ProeveholdId|outboundCensorID|aftaleid)=(\d+)\<close>\<close>

definition rx_id :: rx where
  "rx_id =
     seqs [Alt (Lit ''absid'') (Alt (Lit ''ProeveholdId'')
             (Alt (Lit ''outboundCensorID'') (Lit ''aftaleid''))),
           Lit ''='', Grp 1 (Rep is_digit 1 None)]"

text \<open>\<^verbatim>\<open>Laerer: [^(]*\(([^)]*)\)\<close>, where \<open>ae\<close> stands for the letter U+00E6.\<close>

definition rx_teacher :: rx where
  "rx_teacher =
     seqs [Lit (''L'' @ ae_lower @ ''rer: ''), Rep (\<lambda>cp. cp \<noteq> of_char CHR ''('') 0 None,
           Lit ''('', Grp 1 (Rep (\<lambda>cp. cp \<noteq> of_char CHR '')'') 0 None), Lit '')'']"


section \<open>Dates and times\<close>

text \<open>
  \<open>datetime.date\<close>, \<open>datetime.time\<close> and the two kinds of value that a lesson's start
  and end can hold: a date alone, or a date combined with a time.
\<close>

datatype date = Date (year: nat) (month: nat) (day: nat)

datatype clock = Clock (hour: nat) (minute: nat)

datatype moment = DateOnly date | DateTime date clock

fun date_part :: "moment \<Rightarrow> date" where
  "date_part (DateOnly d) = d"
| "date_part (DateTime d t) = d"

datatype error =
    InvalidStatusError
  | InvalidTimeLineError
  | InvalidLocationError
  | InvalidRessourcesError
  | InvalidGroupsError
  | ValueError
  | TypeError
  | AttributeError

text \<open>\<open>match.group(n)\<close>, and the empty text for a group that took no part.\<close>

definition group_text :: "captures \<times> string \<Rightarrow> nat \<Rightarrow> string" where
  "group_text m n = (case fst m n of Some t \<Rightarrow> t | None \<Rightarrow> [])"

text \<open>
  \<open>int(text)\<close> for a text of decimal digits, which may have blanks before them: the
  digits of every script count with their values.
\<close>

fun code_points :: "string \<Rightarrow> int list" where
  "code_points [] = []"
| "code_points (c # cs) =
     (case utf8_head (c # cs) of
        None \<Rightarrow> []
      | Some (cp, n) \<Rightarrow> cp # code_points (drop (n - 1) cs))"

definition py_int :: "string \<Rightarrow> nat" where
  "py_int s =
     foldl (\<lambda>a cp. 10 * a + (case decimal_value cp of Some v \<Rightarrow> v | None \<Rightarrow> 0)) 0
       (code_points (dropWhile (\<lambda>c. c = CHR '' '') s))"

definition is_leap :: "nat \<Rightarrow> bool" where
  "is_leap y = (y mod 4 = 0 \<and> (y mod 100 \<noteq> 0 \<or> y mod 400 = 0))"

definition days_in_month :: "nat \<Rightarrow> nat \<Rightarrow> nat" where
  "days_in_month y m =
     (if m = 2 then (if is_leap y then 29 else 28)
      else if m \<in> {4, 6, 9, 11} then 30 else 31)"

text \<open>
  \<open>datetime.datetime.strptime(s, "%d/%m-%Y").date()\<close>, with \<open>None\<close> for the
  \<open>ValueError\<close> that Python raises.  \<open>strptime\<close> turns the format into the pattern
  \<^verbatim>\<open>(?P<d>3[0-1]|[1-2]\d|0[1-9]|[1-9]| [1-9])/(?P<m>1[0-2]|0[1-9]|[1-9])-(?P<Y>\d\d\d\d)\<close>
  (the groups are numbered here), matches it at the start of the text, refuses a text
  that goes on after the match, converts the groups with \<open>int\<close>, and builds the date,
  which has to be a day of the calendar in the years 1 to 9999.
\<close>

definition rx_format_date :: rx where
  "rx_format_date =
     seqs [Grp 1 (Alt (Seq (Lit ''3'') (one (between CHR ''0'' CHR ''1'')))
                 (Alt (Seq (one (between CHR ''1'' CHR ''2'')) (one is_digit))
                 (Alt (Seq (Lit ''0'') (one (between CHR ''1'' CHR ''9'')))
                 (Alt (one (between CHR ''1'' CHR ''9''))
                      (Seq (Lit '' '') (one (between CHR ''1'' CHR ''9''))))))),
           Lit ''/'',
           Grp 2 (Alt (Seq (Lit ''1'') (one (between CHR ''0'' CHR ''2'')))
                 (Alt (Seq (Lit ''0'') (one (between CHR ''1'' CHR ''9'')))
                      (one (between CHR ''1'' CHR ''9'')))),
           Lit ''-'',
           Grp 3 (seqs [one is_digit, one is_digit, one is_digit, one is_digit])]"

definition strptime_date :: "string \<Rightarrow> date option" where
  "strptime_date s =
     (case rx_match rx_format_date no_groups s of
        [] \<Rightarrow> None
      | m # _ \<Rightarrow>
          if snd m \<noteq> [] then None
          else (let d = py_int (group_text m 1); mo = py_int (group_text m 2);
                    y = py_int (group_text m 3)
                in if 1 \<le> y \<and> y \<le> 9999 \<and> 1 \<le> mo \<and> mo \<le> 12
                      \<and> 1 \<le> d \<and> d \<le> days_in_month y mo
                   then Some (Date y mo d) else None))"

text \<open>
  \<open>datetime.datetime.strptime(s, "%H:%M").time()\<close>, in the same way; the pattern is
  \<^verbatim>\<open>(?P<H>2[0-3]|[0-1]\d|\d):(?P<M>[0-5]\d|\d)\<close>.
\<close>

definition rx_format_time :: rx where
  "rx_format_time =
     seqs [Grp 1 (Alt (Seq (Lit ''2'') (one (between CHR ''0'' CHR ''3'')))
                 (Alt (Seq (one (between CHR ''0'' CHR ''1'')) (one is_digit))
                      (one is_digit))),
           Lit '':'',
           Grp 2 (Alt (Seq (one (between CHR ''0'' CHR ''5'')) (one is_digit))
                      (one is_digit))]"

definition strptime_time :: "string \<Rightarrow> clock option" where
  "strptime_time s =
     (case rx_match rx_format_time no_groups s of
        [] \<Rightarrow> None
      | m # _ \<Rightarrow>
          if snd m \<noteq> [] then None
          else (let h = py_int (group_text m 1); mi = py_int (group_text m 2)
                in if h \<le> 23 \<and> mi \<le> 59 then Some (Clock h mi) else None))"

section \<open>The line classifier and the getters\<close>

definition is_status_line :: "string \<Rightarrow> bool" where
  "is_status_line line = (re_search rx_status line \<noteq> None)"

text \<open>
  The dictionary \<open>LESSON_STATUS\<close>.  Its keys are \<open>None\<close> and two strings, so a key is a
  \<^typ>\<open>string option\<close>.
\<close>

definition LESSON_STATUS :: "string option \<rightharpoonup> string" where
  "LESSON_STATUS =
     [None \<mapsto> ''normal'', Some AEndret \<mapsto> ''changed'', Some Aflyst \<mapsto> ''cancelled'']"

definition get_status_from_line :: "string \<Rightarrow> error + string" where
  "get_status_from_line line =
     (case LESSON_STATUS (Some line) of
        Some v \<Rightarrow> Inr v
      | None \<Rightarrow> Inl InvalidStatusError)"

definition is_location_line :: "string \<Rightarrow> bool" where
  "is_location_line line = (re_search rx_is_location line \<noteq> None)"

text \<open>\<open>match.group(1)\<close> of a match.\<close>

definition group1 :: "captures \<times> string \<Rightarrow> string" where
  "group1 m = group_text m 1"

definition get_location_from_line :: "string \<Rightarrow> error + string" where
  "get_location_from_line line =
     (case re_search rx_location line of
        None \<Rightarrow> Inl InvalidLocationError
      | Some m \<Rightarrow> Inr (group1 m))"

definition is_groups_line :: "string \<Rightarrow> bool" where
  "is_groups_line line = prefix ''Hold: '' line"

definition get_groups_from_line :: "string \<Rightarrow> error + string" where
  "get_groups_from_line line =
     (case re_search rx_groups line of
        None \<Rightarrow> Inl InvalidGroupsError
      | Some m \<Rightarrow> Inr (group1 m))"

definition is_ressources_line :: "string \<Rightarrow> bool" where
  "is_ressources_line line = prefix ''Ressourcer: '' line"

definition get_ressources_from_line :: "string \<Rightarrow> error + string" where
  "get_ressources_from_line line =
     (case re_search rx_ressources line of
        None \<Rightarrow> Inl InvalidRessourcesError
      | Some m \<Rightarrow> Inr (group1 m))"

definition is_time_line :: "string \<Rightarrow> bool" where
  "is_time_line line = (re_search rx_is_time line \<noteq> None)"

text \<open>
  \<open>_get_date_from_match\<close> and \<open>_get_time_from_match\<close>: a group that did not take part
  in the match is \<open>None\<close>, and \<open>if match:\<close> also sends the empty string to \<open>None\<close>.
\<close>

definition get_date_from_match :: "string option \<Rightarrow> error + date option" where
  "get_date_from_match match =
     (case match of
        None \<Rightarrow> Inr None
      | Some s \<Rightarrow>
          if s = [] then Inr None
          else (case strptime_date s of None \<Rightarrow> Inl ValueError | Some d \<Rightarrow> Inr (Some d)))"

definition get_time_from_match :: "string option \<Rightarrow> error + clock option" where
  "get_time_from_match match =
     (case match of
        None \<Rightarrow> Inr None
      | Some s \<Rightarrow>
          if s = [] then Inr None
          else (case strptime_time s of None \<Rightarrow> Inl ValueError | Some t \<Rightarrow> Inr (Some t)))"

text \<open>\<open>datetime.datetime.combine\<close>; it raises \<open>TypeError\<close> when handed \<open>None\<close> for a date.\<close>

definition combine :: "date option \<Rightarrow> clock \<Rightarrow> error + moment" where
  "combine d t = (case d of None \<Rightarrow> Inl TypeError | Some d' \<Rightarrow> Inr (DateTime d' t))"

text \<open>
  \<open>_get_time_from_line\<close>.  A \<open>datetime.time\<close> is true whatever its value (Python 3.5 and
  later), so \<open>if start_time:\<close> asks whether group 2 took part in the match.
\<close>

definition and_then :: "'e + 'a \<Rightarrow> ('a \<Rightarrow> 'e + 'b) \<Rightarrow> 'e + 'b" where
  "and_then r f = (case r of Inl e \<Rightarrow> Inl e | Inr x \<Rightarrow> f x)"

definition get_time_from_line ::
  "string \<Rightarrow> error + (moment option \<times> moment option \<times> bool)" where
  "get_time_from_line line =
     (case re_search rx_time line of
        None \<Rightarrow> Inl InvalidTimeLineError
      | Some m \<Rightarrow>
          and_then (get_date_from_match (fst m 1)) (\<lambda>start_date.
          and_then (get_time_from_match (fst m 2)) (\<lambda>start_time.
          and_then (case start_time of
                      Some t \<Rightarrow> and_then (combine start_date t) (\<lambda>dt. Inr (Some dt, False))
                    | None \<Rightarrow> Inr (map_option DateOnly start_date, True)) (\<lambda>(start, is_top).
          and_then (get_date_from_match (fst m 3)) (\<lambda>end_date0.
          and_then (get_time_from_match (fst m 4)) (\<lambda>end_time.
          (let end_date = (case end_date0 of None \<Rightarrow> start_date | Some d \<Rightarrow> Some d) in
           and_then (case end_time of
                       Some t \<Rightarrow> and_then (combine end_date t) (\<lambda>dt. Inr (Some dt))
                     | None \<Rightarrow> Inr (map_option DateOnly end_date)) (\<lambda>end.
           Inr (start, end, is_top)))))))))"

section \<open>The lesson extractor\<close>

text \<open>
  \<open>str.splitlines()\<close>: the text is cut at every line boundary, the boundaries are
  dropped, and a boundary at the very end opens no further line.  The boundaries are
  \<open>\n\<close>, \<open>\r\<close>, \<open>\r\n\<close>, \<open>\v\<close>, \<open>\f\<close>, \<open>\x1c\<close>, \<open>\x1d\<close>, \<open>\x1e\<close>, and the code
  points U+0085, U+2028 and U+2029, here in UTF-8.  The first argument is the line
  read so far.
\<close>

fun splitlines_from :: "string \<Rightarrow> string \<Rightarrow> string list" where
  "splitlines_from cur [] = (if cur = [] then [] else [cur])"
| "splitlines_from cur (c # cs) =
     (if c = CHR 0x0D \<and> take 1 cs = [CHR 0x0A] then cur # splitlines_from [] (drop 1 cs)
      else if c \<in> {CHR 0x0A, CHR 0x0B, CHR 0x0C, CHR 0x0D, CHR 0x1C, CHR 0x1D, CHR 0x1E}
        then cur # splitlines_from [] cs
      else if c = CHR 0xC2 \<and> take 1 cs = [CHR 0x85]
        then cur # splitlines_from [] (drop 1 cs)
      else if c = CHR 0xE2 \<and> (take 2 cs = [CHR 0x80, CHR 0xA8] \<or> take 2 cs = [CHR 0x80, CHR 0xA9])
        then cur # splitlines_from [] (drop 2 cs)
      else splitlines_from (cur @ [c]) cs)"

definition splitlines :: "string \<Rightarrow> string list" where
  "splitlines s = splitlines_from [] s"

definition add_line_to_text :: "string \<Rightarrow> string \<Rightarrow> string" where
  "add_line_to_text line text = (if text \<noteq> [] then text @ [CHR 0x0A] else text) @ line"

definition append_section_to_summary :: "string \<Rightarrow> string \<Rightarrow> string" where
  "append_section_to_summary section summary =
     summary @ (if summary \<noteq> [] then SPACER else []) @ section"

definition prepend_section_to_summary :: "string \<Rightarrow> string \<Rightarrow> string" where
  "prepend_section_to_summary section summary =
     section @ (if summary \<noteq> [] then SPACER else []) @ summary"

text \<open>
  \<open>str.replace(old, new)\<close> for a non-empty \<open>old\<close>: the occurrences are replaced from
  left to right and do not overlap.
\<close>

fun str_replace :: "string \<Rightarrow> string \<Rightarrow> string \<Rightarrow> string" where
  "str_replace old new [] = []"
| "str_replace old new (c # cs) =
     (if old \<noteq> [] \<and> prefix old (c # cs)
      then new @ str_replace old new (drop (length old - 1) cs)
      else c # str_replace old new cs)"

text \<open>
  \<open>re.sub(pattern, r"\1", text)\<close>: every match, found from left to right, is replaced
  by its group 1, and the text between the matches is kept.  The patterns of the
  source match no empty text; were a match empty, the scan moves on by one character.
\<close>

fun re_sub_group1 :: "rx \<Rightarrow> string \<Rightarrow> string" where
  "re_sub_group1 r [] = []"
| "re_sub_group1 r (c # cs) =
     (case rx_match r no_groups (c # cs) of
        [] \<Rightarrow> c # re_sub_group1 r cs
      | m # _ \<Rightarrow>
          if length (snd m) \<le> length cs
          then group1 m @ re_sub_group1 r (snd m)
          else c # re_sub_group1 r cs)"

text \<open>\<open>str.find(sub) != -1\<close>.\<close>

fun contains :: "string \<Rightarrow> string \<Rightarrow> bool" where
  "contains sub [] = (sub = [])"
| "contains sub (c # cs) = (prefix sub (c # cs) \<or> contains sub cs)"

text \<open>The local variables of \<open>_extract_lesson_info\<close> that its loop updates.\<close>

record info =
  summary :: string
  description :: string
  groups :: string
  ressources :: string
  start_time :: "moment option"
  end_time :: "moment option"
  location :: "string option"
  header_section :: bool
  is_top :: bool

definition initial_info :: info where
  "initial_info =
     \<lparr> summary = [], description = [], groups = [], ressources = [],
       start_time = None, end_time = None, location = None,
       header_section = True, is_top = False \<rparr>"

text \<open>
  ``Find status and event title (if present) and offset'': the result is
  \<open>(status, event_title, offset)\<close>, and \<open>status\<close> is \<open>None\<close> when no status line is read.
\<close>

definition find_status_and_title :: "string list \<Rightarrow> error + (string option \<times> string \<times> nat)" where
  "find_status_and_title lines =
     (if length lines \<ge> 2 then
        and_then
          (if is_status_line (lines ! 0)
           then and_then (get_status_from_line (lines ! 0)) (\<lambda>st. Inr (Some st, lines ! 1, 1))
           else Inr (None, lines ! 0, 0))
          (\<lambda>(status, line, offset).
             if \<not> is_time_line line then Inr (status, line, offset + 1)
             else Inr (status, [], offset))
      else Inr (None, [], 0))"

text \<open>``Get info from all lines'': the loop over \<open>lines[offset:]\<close>.\<close>

fun get_info :: "info \<Rightarrow> string list \<Rightarrow> error + info" where
  "get_info v [] = Inr v"
| "get_info v (line # rest) =
     (if header_section v then
        if line = [] then get_info (v\<lparr>header_section := False\<rparr>) rest
        else if is_time_line line then
          and_then (get_time_from_line line) (\<lambda>(s, e, t).
            get_info (v\<lparr>start_time := s, end_time := e, is_top := t\<rparr>) rest)
        else if is_location_line line then
          and_then (get_location_from_line line) (\<lambda>l.
            get_info (v\<lparr>location := Some l\<rparr>) rest)
        else if is_groups_line line then
          and_then (get_groups_from_line line) (\<lambda>g.
            get_info (v\<lparr>groups := g\<rparr>) rest)
        else if is_ressources_line line then
          and_then (get_ressources_from_line line) (\<lambda>r.
            get_info (v\<lparr>ressources := r\<rparr>) rest)
        else get_info (v\<lparr>summary := append_section_to_summary line (summary v)\<rparr>) rest
      else get_info (v\<lparr>description := add_line_to_text line (description v)\<rparr>) rest)"

text \<open>``Remove extra text in the summary''.\<close>

definition remove_extra_text :: "string \<Rightarrow> string" where
  "remove_extra_text s =
     re_sub_group1 rx_teacher (str_replace (''L'' @ ae_lower @ ''rere: '') [] s)"

text \<open>
  ``Construct summary and description''.  The resources go in front of the
  description and the location goes behind the summary; \<open>if location:\<close> is false
  for \<open>None\<close> and for the empty string.  These are the summary and the description as
  they stand when the source reaches \<open>if groups:\<close>.
\<close>

definition description_before_groups :: "info \<Rightarrow> string" where
  "description_before_groups v =
     (if ressources v \<noteq> []
      then ''Ressoucer: '' @ ressources v @ [CHR 0x0A, CHR 0x0A] @ description v
      else description v)"

definition summary_before_groups :: "info \<Rightarrow> string" where
  "summary_before_groups v =
     (let summary0 = remove_extra_text (summary v) in
      case location v of
        Some l \<Rightarrow> if l \<noteq> [] then append_section_to_summary l summary0 else summary0
      | None \<Rightarrow> summary0)"

text \<open>
  The rest of \<open>_extract_lesson_info\<close>: the groups and the event title are put in
  place, an empty description becomes \<open>None\<close>, and the tuple is returned.
\<close>

type_synonym lesson_info =
  "string \<times> string option \<times> moment option \<times> moment option \<times> string option \<times> string option \<times> bool"

definition construct :: "string option \<Rightarrow> string \<Rightarrow> info \<Rightarrow> lesson_info" where
  "construct status event_title v =
     (let (summary', description') =
            (if groups v \<noteq> [] then
               (let summary1 = prepend_section_to_summary (groups v) (summary_before_groups v) in
                if \<not> contains ''Alle'' (groups v)
                then (summary1, event_title @ [CHR 0x0A, CHR 0x0A] @ description_before_groups v)
                else (prepend_section_to_summary event_title summary1,
                      description_before_groups v))
             else (prepend_section_to_summary event_title (summary_before_groups v),
                   description_before_groups v))
      in (summary', status, start_time v, end_time v, location v,
          (if description' = [] then None else Some description'), is_top v))"

definition extract_lesson_info :: "string \<Rightarrow> error + lesson_info" where
  "extract_lesson_info title =
     (let lines = splitlines title in
      and_then (find_status_and_title lines) (\<lambda>(status, event_title, offset).
      and_then (get_info initial_info (drop offset lines)) (\<lambda>v.
      Inr (construct status event_title v))))"

section \<open>Lessons, the filter and the merger\<close>

text \<open>
  Modelled from the spec: the class \<open>Lesson\<close> of lesson.py, which is not among the
  sources.  Section 3 of the specification gives its fields, in the order of the
  constructor call in \<open>_parse_element_to_lesson\<close>, and makes two lessons equal
  exactly when all fields are equal, which is the equality of this datatype.
\<close>

datatype lesson =
  Lesson (lesson_id: "string option") (lesson_summary: string)
         (lesson_status: "string option")
         (lesson_start: "moment option") (lesson_end: "moment option")
         (lesson_location: "string option") (lesson_description: "string option")
         (lesson_link: "string option")

definition get_id_from_link :: "string \<Rightarrow> string option" where
  "get_id_from_link link =
     (case re_search rx_id link of None \<Rightarrow> None | Some m \<Rightarrow> Some (group1 m))"

text \<open>\<open>link.split("&prevurl=", 1)[0]\<close>: the text before the first separator.\<close>

fun before_first :: "string \<Rightarrow> string \<Rightarrow> string" where
  "before_first sep [] = []"
| "before_first sep (c # cs) = (if prefix sep (c # cs) then [] else c # before_first sep cs)"

definition get_complete_link :: "string \<Rightarrow> string" where
  "get_complete_link link = ''https://www.lectio.dk'' @ before_first ''&prevurl='' link"

text \<open>
  A schedule tile: the two attributes that \<open>_parse_element_to_lesson\<close> reads with
  \<open>element.get\<close>, each \<open>None\<close> when the attribute is missing.
\<close>

record element =
  href :: "string option"
  data_additionalinfo :: "string option"

text \<open>
  \<open>_parse_element_to_lesson\<close>.  \<open>if link:\<close> is false for \<open>None\<close> and for the empty
  string; a missing \<open>data-additionalinfo\<close> makes \<open>title.splitlines()\<close> raise
  \<open>AttributeError\<close>.  The result \<open>Inr None\<close> is the \<open>return None\<close> of the source.
\<close>

definition parse_element_to_lesson :: "element \<Rightarrow> bool \<Rightarrow> bool \<Rightarrow> error + lesson option" where
  "parse_element_to_lesson el show_top show_cancelled =
     (let (id, link) =
            (case href el of
               Some l \<Rightarrow> if l \<noteq> [] then (get_id_from_link l, Some (get_complete_link l))
                         else (None, Some l)
             | None \<Rightarrow> (None, None))
      in and_then
           (case data_additionalinfo el of
              None \<Rightarrow> Inl AttributeError
            | Some title \<Rightarrow> extract_lesson_info title)
           (\<lambda>(summary, status, start_time, end_time, location, description, is_top).
              if \<not> show_top \<and> is_top then Inr None
              else if \<not> show_cancelled \<and> status = Some ''cancelled'' then Inr None
              else Inr (Some (Lesson id summary status start_time end_time
                                     location description link))))"

text \<open>
  \<open>_filter_for_duplicates\<close>: the loop appends a lesson to \<open>filtered_schedule\<close> when
  no equal lesson is in it yet.
\<close>

fun filter_loop :: "'a list \<Rightarrow> 'a list \<Rightarrow> 'a list" where
  "filter_loop filtered_schedule [] = filtered_schedule"
| "filter_loop filtered_schedule (lesson # schedule) =
     filter_loop (if lesson \<notin> set filtered_schedule
                  then filtered_schedule @ [lesson] else filtered_schedule) schedule"

definition filter_for_duplicates :: "lesson list \<Rightarrow> lesson list" where
  "filter_for_duplicates schedule = filter_loop [] schedule"

section \<open>Vocabulary for the properties\<close>

text \<open>
  The group numbers that occur in a pattern, and those that every match of the
  pattern has captured.
\<close>

fun grps :: "rx \<Rightarrow> nat set" where
  "grps (Lit l) = {}"
| "grps (Rep p lo hi) = {}"
| "grps (Seq a b) = grps a \<union> grps b"
| "grps (Alt a b) = grps a \<union> grps b"
| "grps (Opt a) = grps a"
| "grps (Grp n a) = insert n (grps a)"

fun sure :: "rx \<Rightarrow> nat set" where
  "sure (Lit l) = {}"
| "sure (Rep p lo hi) = {}"
| "sure (Seq a b) = sure a \<union> sure b"
| "sure (Alt a b) = sure a \<inter> sure b"
| "sure (Opt a) = {}"
| "sure (Grp n a) = insert n (sure a)"

text \<open>
  The four tokens of a time-range line: \<open>match.group(1)\<close> to \<open>match.group(4)\<close> of the
  search in \<open>_get_time_from_line\<close>, that is the start date, the start time, the end
  date and the end time; \<open>None\<close> is a token that is absent.
\<close>

definition time_tokens ::
  "string \<Rightarrow> (string option \<times> string option \<times> string option \<times> string option) option" where
  "time_tokens line =
     map_option (\<lambda>m. (fst m 1, fst m 2, fst m 3, fst m 4)) (re_search rx_time line)"

text \<open>
  The merger as the specification words it: the entries of the input at the
  positions where a lesson occurs for the first time, in the order of the positions.
\<close>

definition first_occurrences :: "'a list \<Rightarrow> 'a list" where
  "first_occurrences xs =
     map (\<lambda>i. xs ! i) (filter (\<lambda>i. xs ! i \<notin> set (take i xs)) [0 ..< length xs])"

text \<open>
  A token is usable when it is absent or \<open>strptime\<close> accepts it: a date of the
  calendar, a time of the clock.
\<close>

definition token_parses :: "(string \<Rightarrow> 'a option) \<Rightarrow> string option \<Rightarrow> bool" where
  "token_parses f tok = (case tok of None \<Rightarrow> True | Some s \<Rightarrow> f s \<noteq> None)"

definition time_line_example :: string where
  "time_line_example = ''8/4-2016 17:30 til 9/4-2016 01:00''"

text \<open>The status in the tuple that \<open>_extract_lesson_info\<close> returns.\<close>

definition info_status :: "lesson_info \<Rightarrow> string option" where
  "info_status r = fst (snd r)"

text \<open>
  The header section of a block: the lines after the status and title lines, up to
  the first empty line.
\<close>

definition header_lines :: "nat \<Rightarrow> string list \<Rightarrow> string list" where
  "header_lines offset lines = takeWhile (\<lambda>l. l \<noteq> []) (drop offset lines)"

text \<open>Raw blocks and tiles on which the properties are tried.\<close>

definition nl :: string where
  "nl = [CHR 0x0A]"

definition block_cancelled :: string where
  "block_cancelled = ''Aflyst!'' @ nl @ ''Math 1a'' @ nl @ ''14/3-2016 Hele dagen''"

definition block_bad_status :: string where
  "block_bad_status = ''Aflyst! (flyttet)'' @ nl @ ''Math 1a'' @ nl @ ''14/3-2016 Hele dagen''"

definition block_no_time :: string where
  "block_no_time = ''Math 1a'' @ nl @ ''Lokale: 204''"

definition block_empty_markers :: string where
  "block_empty_markers =
     ''14/3-2016 Hele dagen'' @ nl @ ''Lokale: '' @ nl @ ''Hold: '' @ nl @ ''Ressourcer: ''"

definition block_all_groups :: string where
  "block_all_groups =
     ''Faellestime'' @ nl @ ''14/3-2016 15:20 til 16:50'' @ nl @ ''Hold: Alle 1a, 1b''
       @ nl @ ''Lokale: 204'' @ nl @ nl @ ''Husk bogen''"

definition block_one_group :: string where
  "block_one_group =
     ''Faellestime'' @ nl @ ''14/3-2016 15:20 til 16:50'' @ nl @ ''Hold: 1a''
       @ nl @ ''Lokale: 204'' @ nl @ nl @ ''Husk bogen''"

definition tile_cancelled :: element where
  "tile_cancelled =
     \<lparr> href = Some ''/lectio/1/aktivitet.aspx?absid=123&prevurl=skema'',
       data_additionalinfo = Some block_cancelled \<rparr>"

text \<open>
  The variables of \<open>_extract_lesson_info\<close> after its loop over the lines of the two
  blocks with groups (they differ in the groups only).
\<close>

definition info_with_groups :: "string \<Rightarrow> info" where
  "info_with_groups g =
     \<lparr> summary = [], description = ''Husk bogen'', groups = g, ressources = [],
       start_time = Some (DateTime (Date 2016 3 14) (Clock 15 20)),
       end_time = Some (DateTime (Date 2016 3 14) (Clock 16 50)),
       location = Some ''204'', header_section = False, is_top = False \<rparr>"

text \<open>
  The least number of bytes that a match of a pattern reads, and the patterns in
  which every group reads at least one byte.
\<close>

fun min_len :: "rx \<Rightarrow> nat" where
  "min_len (Lit l) = length l"
| "min_len (Rep p lo hi) = lo"
| "min_len (Seq a b) = min_len a + min_len b"
| "min_len (Alt a b) = min (min_len a) (min_len b)"
| "min_len (Opt a) = 0"
| "min_len (Grp n a) = min_len a"

fun groups_nonempty :: "rx \<Rightarrow> bool" where
  "groups_nonempty (Lit l) = True"
| "groups_nonempty (Rep p lo hi) = True"
| "groups_nonempty (Seq a b) = (groups_nonempty a \<and> groups_nonempty b)"
| "groups_nonempty (Alt a b) = (groups_nonempty a \<and> groups_nonempty b)"
| "groups_nonempty (Opt a) = groups_nonempty a"
| "groups_nonempty (Grp n a) = (0 < min_len a \<and> groups_nonempty a)"

text \<open>
  A line carries a payload when the getter of each marker it is recognized by finds
  text after the marker.
\<close>

definition carries_payload :: "string \<Rightarrow> bool" where
  "carries_payload line =
     ((is_location_line line \<longrightarrow> get_location_from_line line \<noteq> Inr [])
      \<and> (is_groups_line line \<longrightarrow> get_groups_from_line line \<noteq> Inr [])
      \<and> (is_ressources_line line \<longrightarrow> get_ressources_from_line line \<noteq> Inr []))"

definition block_without_groups :: string where
  "block_without_groups =
     ''Faellestime'' @ nl @ ''14/3-2016 15:20 til 16:50''
       @ nl @ ''Lokale: 204'' @ nl @ nl @ ''Husk bogen''"

definition block_cancelled_no_time :: string where
  "block_cancelled_no_time = ''Aflyst!'' @ nl @ ''Math 1a''"

definition tile_of :: "string \<Rightarrow> element" where
  "tile_of block = \<lparr> href = None, data_additionalinfo = Some block \<rparr>"

text \<open>
  Two more time-range lines: one with a day and a month that no calendar has, and
  one whose day and year are written with the fullwidth digits U+FF10 to U+FF19.
\<close>

definition time_line_refused :: string where
  "time_line_refused = ''99/99-2016 Hele dagen''"

definition date_fullwidth :: string where
  "date_fullwidth =
     ''1'' @ [CHR 0xEF, CHR 0xBC, CHR 0x94] @ ''/3-''
       @ [CHR 0xEF, CHR 0xBC, CHR 0x92, CHR 0xEF, CHR 0xBC, CHR 0x90,
          CHR 0xEF, CHR 0xBC, CHR 0x91, CHR 0xEF, CHR 0xBC, CHR 0x96]"

definition time_line_fullwidth :: string where
  "time_line_fullwidth = date_fullwidth @ '' Hele dagen''"

section \<open>Properties of the pattern matcher\<close>

lemma rx_match_captures:
  "(g', s') \<in> set (rx_match r g s) \<Longrightarrow>
     (\<forall>n. n \<notin> grps r \<longrightarrow> g' n = g n) \<and> (\<forall>n. n \<in> sure r \<or> g n \<noteq> None \<longrightarrow> g' n \<noteq> None)"
proof (induction r arbitrary: g s g' s')
  case (Seq a b)
  from Seq.prems obtain g1 s1 where
    a: "(g1, s1) \<in> set (rx_match a g s)" and b: "(g', s') \<in> set (rx_match b g1 s1)"
    by auto
  from Seq.IH(1)[OF a] Seq.IH(2)[OF b] show ?case by auto
next
  case (Alt a b)
  then show ?case by (auto; blast)
next
  case (Opt a)
  then show ?case by auto
next
  case (Grp n a)
  from Grp.prems obtain g1 where
    a: "(g1, s') \<in> set (rx_match a g s)" and g': "g' = g1(n \<mapsto> take (length s - length s') s)"
    by auto
  from Grp.IH[OF a] g' show ?case by auto
qed (auto split: if_splits)

lemma re_search_None: "re_search r s = None \<longleftrightarrow> (\<forall>t. suffix t s \<longrightarrow> rx_match r no_groups t = [])"
proof (induction s)
  case Nil
  then show ?case by (auto split: list.splits)
next
  case (Cons c cs)
  show ?case
    by (auto simp: Cons.IH suffix_Cons split: list.splits)
qed

lemma re_search_Some:
  "re_search r s = Some m \<Longrightarrow> \<exists>t. suffix t s \<and> m \<in> set (rx_match r no_groups t)"
proof (induction s)
  case Nil
  then show ?case by (auto split: list.splits)
next
  case (Cons c cs)
  then show ?case
    by (fastforce simp: suffix_Cons split: list.splits)
qed

lemma rx_match_Seq_nonempty:
  "rx_match (Seq a b) g s \<noteq> [] \<longleftrightarrow> (\<exists>m \<in> set (rx_match a g s). rx_match b (fst m) (snd m) \<noteq> [])"
  by (auto simp: case_prod_beta)

lemma rx_match_Lit_nonempty: "rx_match (Lit l) g s \<noteq> [] \<longleftrightarrow> prefix l s"
  by simp

lemma class_rests_nonempty: "class_rests p k s \<noteq> []"
  by (cases k) (auto split: option.splits)

lemma rep_rests_from_zero: "rep_rests p 0 hi s \<noteq> []"
  by (simp add: rep_rests_def class_rests_nonempty)

lemma rx_match_any_text: "rx_match (Grp n any_text) g s \<noteq> []"
  by (simp add: any_text_def rep_rests_from_zero)


lemma rx_date_grps: "grps rx_date = {}" "sure rx_date = {}"
  by (simp_all add: rx_date_def digits_def)

lemma rx_clock_grps: "grps rx_clock = {}" "sure rx_clock = {}"
  by (simp_all add: rx_clock_def digits_def)

lemma in_rx_match_Seq:
  "m \<in> set (rx_match (Seq a b) g s) \<longleftrightarrow>
     (\<exists>g1 s1. (g1, s1) \<in> set (rx_match a g s) \<and> m \<in> set (rx_match b g1 s1))"
  by auto

lemma in_rx_match_Opt:
  "m \<in> set (rx_match (Opt a) g s) \<longleftrightarrow> m \<in> set (rx_match a g s) \<or> m = (g, s)"
  by auto

lemma rx_time_captures:
  assumes "m \<in> set (rx_match rx_time no_groups t)"
  shows "fst m 1 \<noteq> None \<and>
         ((fst m 2 = None \<and> fst m 3 = None \<and> fst m 4 = None) \<or> (fst m 2 \<noteq> None \<and> fst m 4 \<noteq> None))"
proof -
  from assms obtain g1 s1 where
    a: "(g1, s1) \<in> set (rx_match (Grp 1 rx_date) no_groups t)" and
    b: "m = (g1, s1) \<or> m \<in> set (rx_match rx_time_rest g1 s1)"
    unfolding rx_time_def in_rx_match_Seq in_rx_match_Opt by blast
  from rx_match_captures[OF a]
  have g1: "g1 1 \<noteq> None" "g1 2 = None" "g1 3 = None" "g1 4 = None"
    by (simp_all add: rx_date_grps no_groups_def)
  from b show ?thesis
  proof
    assume "m = (g1, s1)"
    with g1 show ?thesis by simp
  next
    assume "m \<in> set (rx_match rx_time_rest g1 s1)"
    then have "(fst m, snd m) \<in> set (rx_match rx_time_rest g1 s1)" by simp
    from rx_match_captures[OF this] g1 show ?thesis
      by (simp add: rx_time_rest_def rx_date_grps rx_clock_grps)
  qed
qed

lemma is_time_line_search:
  assumes "is_time_line line"
  shows "\<exists>m. re_search rx_time line = Some m"
proof -
  from assms obtain t where t: "suffix t line" "rx_match rx_is_time no_groups t \<noteq> []"
    by (auto simp: is_time_line_def re_search_None)
  then have "rx_match rx_date no_groups t \<noteq> []"
    unfolding rx_is_time_def seqs.simps by (simp only: rx_match_Seq_nonempty) auto
  then have "rx_match rx_time no_groups t \<noteq> []"
    unfolding rx_time_def by (cases "rx_match rx_date no_groups t") auto
  with t(1) have "re_search rx_time line \<noteq> None"
    by (auto simp: re_search_None)
  then show ?thesis by auto
qed

lemma time_tokens_shape:
  assumes "is_time_line line"
  shows "\<exists>g1 g2 g3 g4. time_tokens line = Some (Some g1, g2, g3, g4) \<and>
           (g2 = None \<longrightarrow> g3 = None \<and> g4 = None) \<and> (g2 \<noteq> None \<longrightarrow> g4 \<noteq> None)"
proof -
  from is_time_line_search[OF assms] obtain m where m: "re_search rx_time line = Some m" by auto
  from re_search_Some[OF m] obtain t where "m \<in> set (rx_match rx_time no_groups t)" by auto
  from rx_time_captures[OF this] m show ?thesis
    by (auto simp: time_tokens_def)
qed

lemma strptime_Nil: "strptime_date [] = None" "strptime_time [] = None"
  by code_simp+

lemma utf8_head_bounds: "utf8_head s = Some (cp, n) \<Longrightarrow> 0 < n \<and> n \<le> length s"
  by (cases s) (auto simp: Let_def split: if_splits)

lemma class_rests_length:
  "r \<in> set (drop lo (class_rests p k s)) \<Longrightarrow> length r + lo \<le> length s"
proof (induction k arbitrary: s lo)
  case 0
  then show ?case by (cases lo) auto
next
  case (Suc k)
  show ?case
  proof (cases "utf8_head s")
    case None
    with Suc.prems show ?thesis by (cases lo) auto
  next
    case (Some a)
    obtain cp n where a: "a = (cp, n)" by (cases a)
    from utf8_head_bounds[of s cp n] Some a have n: "0 < n" "n \<le> length s" by simp_all
    show ?thesis
    proof (cases "p cp")
      case False
      with Suc.prems Some a show ?thesis by (cases lo) auto
    next
      case True
      show ?thesis
      proof (cases lo)
        case 0
        with Suc.prems Some a True have "r = s \<or> r \<in> set (drop 0 (class_rests p k (drop n s)))"
          by auto
        then show ?thesis
        proof
          assume "r = s" with 0 show ?thesis by simp
        next
          assume "r \<in> set (drop 0 (class_rests p k (drop n s)))"
          from Suc.IH[OF this] 0 show ?thesis by simp
        qed
      next
        case (Suc l)
        with Suc.prems Some a True have "r \<in> set (drop l (class_rests p k (drop n s)))"
          by auto
        from Suc.IH[OF this] n Suc show ?thesis by simp
      qed
    qed
  qed
qed

lemma rx_match_length:
  "(g', s') \<in> set (rx_match r g s) \<Longrightarrow> length s' + min_len r \<le> length s"
proof (induction r arbitrary: g s g' s')
  case (Lit l)
  then show ?case by (auto simp: prefix_def split: if_splits)
next
  case (Rep p lo hi)
  then have "s' \<in> set (drop lo (class_rests p (case hi of None \<Rightarrow> length s | Some h \<Rightarrow> h) s))"
    by (auto simp: rep_rests_def)
  from class_rests_length[OF this] show ?case by simp
next
  case (Seq a b)
  from Seq.prems obtain g1 s1 where
    a: "(g1, s1) \<in> set (rx_match a g s)" and b: "(g', s') \<in> set (rx_match b g1 s1)"
    by auto
  from Seq.IH(1)[OF a] Seq.IH(2)[OF b] show ?case by simp
next
  case (Alt a b)
  from Alt.prems have "(g', s') \<in> set (rx_match a g s) \<or> (g', s') \<in> set (rx_match b g s)"
    by auto
  with Alt.IH show ?case by fastforce
next
  case (Opt a)
  from Opt.prems have "(g', s') \<in> set (rx_match a g s) \<or> s' = s" by auto
  with Opt.IH show ?case by fastforce
next
  case (Grp n a)
  from Grp.prems obtain g1 where "(g1, s') \<in> set (rx_match a g s)" by auto
  from Grp.IH[OF this] show ?case by simp
qed

lemma rx_match_groups_nonempty:
  "groups_nonempty r \<Longrightarrow> (\<forall>n t. g n = Some t \<longrightarrow> t \<noteq> []) \<Longrightarrow>
   (g', s') \<in> set (rx_match r g s) \<Longrightarrow> (\<forall>n t. g' n = Some t \<longrightarrow> t \<noteq> [])"
proof (induction r arbitrary: g s g' s')
  case (Lit l)
  then show ?case by (auto split: if_splits)
next
  case (Rep p lo hi)
  then show ?case by auto
next
  case (Seq a b)
  from Seq.prems(3) obtain g1 s1 where
    a: "(g1, s1) \<in> set (rx_match a g s)" and b: "(g', s') \<in> set (rx_match b g1 s1)"
    by auto
  from Seq.prems(1) have ga: "groups_nonempty a" and gb: "groups_nonempty b" by simp_all
  from Seq.IH(1)[OF ga Seq.prems(2) a] have "\<forall>n t. g1 n = Some t \<longrightarrow> t \<noteq> []" .
  from Seq.IH(2)[OF gb this b] show ?case .
next
  case (Alt a b)
  from Alt.prems(3) have "(g', s') \<in> set (rx_match a g s) \<or> (g', s') \<in> set (rx_match b g s)"
    by auto
  with Alt.IH Alt.prems(1,2) show ?case by (metis groups_nonempty.simps(4))
next
  case (Opt a)
  from Opt.prems(3) have "(g', s') \<in> set (rx_match a g s) \<or> g' = g" by auto
  with Opt.IH Opt.prems(1,2) show ?case by (metis groups_nonempty.simps(5))
next
  case (Grp n a)
  from Grp.prems(3) obtain g1 where
    a: "(g1, s') \<in> set (rx_match a g s)" and g': "g' = g1(n \<mapsto> take (length s - length s') s)"
    by auto
  from Grp.prems(1) have ga: "0 < min_len a" "groups_nonempty a" by simp_all
  from Grp.IH[OF ga(2) Grp.prems(2) a] have g1: "\<forall>n t. g1 n = Some t \<longrightarrow> t \<noteq> []" .
  from rx_match_length[OF a] ga(1) have "length s' < length s" by simp
  then have "take (length s - length s') s \<noteq> []" by auto
  with g1 g' show ?case by auto
qed

lemma rx_time_groups_nonempty: "groups_nonempty rx_time"
  by (simp add: rx_time_def rx_time_rest_def rx_date_def rx_clock_def digits_def)

lemma time_tokens_nonempty:
  assumes "time_tokens line = Some (a, b, c, d)"
  shows "a \<noteq> Some [] \<and> b \<noteq> Some [] \<and> c \<noteq> Some [] \<and> d \<noteq> Some []"
proof -
  from assms obtain m where m: "re_search rx_time line = Some m"
    "a = fst m 1" "b = fst m 2" "c = fst m 3" "d = fst m 4"
    by (auto simp: time_tokens_def)
  from re_search_Some[OF m(1)] obtain t where "(fst m, snd m) \<in> set (rx_match rx_time no_groups t)"
    by auto
  from rx_match_groups_nonempty[OF rx_time_groups_nonempty _ this]
  have "\<forall>n t. fst m n = Some t \<longrightarrow> t \<noteq> []" by (simp add: no_groups_def)
  with m show ?thesis by auto
qed

section \<open>The schedule merger\<close>

lemma filter_loop_snoc:
  "filter_loop acc (xs @ [x]) =
     (if x \<in> set (filter_loop acc xs) then filter_loop acc xs else filter_loop acc xs @ [x])"
  by (induction xs arbitrary: acc) auto

lemma set_filter_loop: "set (filter_loop acc xs) = set acc \<union> set xs"
  by (induction xs arbitrary: acc) auto

lemma distinct_filter_loop: "distinct acc \<Longrightarrow> distinct (filter_loop acc xs)"
  by (induction xs arbitrary: acc) auto

lemma filter_loop_distinct: "distinct (acc @ xs) \<Longrightarrow> filter_loop acc xs = acc @ xs"
  by (induction xs arbitrary: acc) auto

lemma first_occurrences_snoc:
  "first_occurrences (xs @ [x]) = first_occurrences xs @ (if x \<in> set xs then [] else [x])"
proof -
  have 1: "filter (\<lambda>i. (xs @ [x]) ! i \<notin> set (take i (xs @ [x]))) [0 ..< length xs]
         = filter (\<lambda>i. xs ! i \<notin> set (take i xs)) [0 ..< length xs]"
    by (rule filter_cong) (auto simp: nth_append)
  have 2: "map (\<lambda>i. (xs @ [x]) ! i) (filter (\<lambda>i. xs ! i \<notin> set (take i xs)) [0 ..< length xs])
         = map (\<lambda>i. xs ! i) (filter (\<lambda>i. xs ! i \<notin> set (take i xs)) [0 ..< length xs])"
    by (rule map_cong) (auto simp: nth_append)
  show ?thesis
    unfolding first_occurrences_def using 1 2 by simp
qed

lemma filter_loop_first_occurrences: "filter_loop [] xs = first_occurrences xs"
proof (induction xs rule: rev_induct)
  case Nil
  show ?case by (simp add: first_occurrences_def)
next
  case (snoc x xs)
  have "set (first_occurrences xs) = set xs"
    using set_filter_loop[of "[]" xs] by (simp add: snoc.IH)
  then show ?case
    by (simp add: filter_loop_snoc first_occurrences_snoc snoc.IH)
qed

text \<open>
  Claim C3.  For every list of lessons the merger returns the lessons at the
  positions of their first occurrence, in the order of these positions: no lesson
  occurs twice in the result, every lesson of the input occurs in it, and the
  first-seen entries keep their order.
\<close>

theorem merger_keeps_first_occurrences:
  "filter_for_duplicates schedule = first_occurrences schedule
   \<and> distinct (filter_for_duplicates schedule)
   \<and> set (filter_for_duplicates schedule) = set schedule"
  by (simp add: filter_for_duplicates_def filter_loop_first_occurrences[symmetric]
        distinct_filter_loop set_filter_loop)

text \<open>
  Claim C9.  The merger is idempotent: run on its own result it returns that result
  unchanged.
\<close>

theorem merger_idempotent:
  "filter_for_duplicates (filter_for_duplicates schedule) = filter_for_duplicates schedule"
  by (simp add: filter_for_duplicates_def filter_loop_distinct distinct_filter_loop)

section \<open>The time-range parser\<close>

lemma get_date_from_match_Some:
  "strptime_date s = Some d \<Longrightarrow> get_date_from_match (Some s) = Inr (Some d)"
  by (auto simp: get_date_from_match_def strptime_Nil)

lemma get_time_from_match_Some:
  "strptime_time s = Some t \<Longrightarrow> get_time_from_match (Some s) = Inr (Some t)"
  by (auto simp: get_time_from_match_def strptime_Nil)

lemma get_from_match_None:
  "get_date_from_match None = Inr None" "get_time_from_match None = Inr None"
  by (simp_all add: get_date_from_match_def get_time_from_match_def)

lemma get_date_from_match_refused:
  "s \<noteq> [] \<Longrightarrow> strptime_date s = None \<Longrightarrow> get_date_from_match (Some s) = Inl ValueError"
  by (simp add: get_date_from_match_def)

lemma get_time_from_match_refused:
  "s \<noteq> [] \<Longrightarrow> strptime_time s = None \<Longrightarrow> get_time_from_match (Some s) = Inl ValueError"
  by (simp add: get_time_from_match_def)

text \<open>
  Claim C1, as amended.  A line that the classifier takes for a time-range line
  always has a start date token, so the parser never reports a malformed time line.
  When every token that is present is accepted by \<open>strptime\<close>, the parser returns
  \<open>(start, end, is_top)\<close> and: without an end date token the end date is the start
  date; without an end time token the end is a date alone; without a start time
  token start and end are both the start date alone and \<open>is_top\<close> is true; with both
  time tokens start and end combine their dates and times, and \<open>is_top\<close> is false.
  When \<open>strptime\<close> refuses a token that is present, the parser raises \<open>ValueError\<close>.
\<close>

theorem time_range_rules:
  assumes "is_time_line line"
  shows "\<exists>d1 t1 d2 t2. time_tokens line = Some (Some d1, t1, d2, t2) \<and>
     (\<forall>sd. strptime_date d1 = Some sd \<and> token_parses strptime_time t1
            \<and> token_parses strptime_date d2 \<and> token_parses strptime_time t2 \<longrightarrow>
        (\<exists>start end top. get_time_from_line line = Inr (Some start, Some end, top) \<and>
           (d2 = None \<longrightarrow> date_part end = sd) \<and>
           (t2 = None \<longrightarrow> end = DateOnly (date_part end)) \<and>
           (t1 = None \<longrightarrow> start = DateOnly sd \<and> end = DateOnly sd \<and> top) \<and>
           (\<forall>a b. t1 = Some a \<and> t2 = Some b \<longrightarrow>
              (\<exists>c1 c2 ed. strptime_time a = Some c1 \<and> strptime_time b = Some c2 \<and>
                 (case d2 of None \<Rightarrow> ed = sd | Some d \<Rightarrow> strptime_date d = Some ed) \<and>
                 start = DateTime sd c1 \<and> end = DateTime ed c2 \<and> \<not> top)))) \<and>
     (\<not> (token_parses strptime_date (Some d1) \<and> token_parses strptime_time t1
          \<and> token_parses strptime_date d2 \<and> token_parses strptime_time t2) \<longrightarrow>
        get_time_from_line line = Inl ValueError)"
proof -
  from time_tokens_shape[OF assms] obtain d1 t1 d2 t2 where
    tok: "time_tokens line = Some (Some d1, t1, d2, t2)" and
    shape: "t1 = None \<longrightarrow> d2 = None \<and> t2 = None" "t1 \<noteq> None \<longrightarrow> t2 \<noteq> None"
    by blast
  from time_tokens_nonempty[OF tok] have
    ne: "d1 \<noteq> []" "t1 \<noteq> Some []" "d2 \<noteq> Some []" "t2 \<noteq> Some []" by simp_all
  from tok obtain m where
    m: "re_search rx_time line = Some m" "fst m 1 = Some d1" "fst m 2 = t1"
       "fst m 3 = d2" "fst m 4 = t2"
    by (auto simp: time_tokens_def)
  have rules: "\<exists>start end top. get_time_from_line line = Inr (Some start, Some end, top) \<and>
           (d2 = None \<longrightarrow> date_part end = sd) \<and>
           (t2 = None \<longrightarrow> end = DateOnly (date_part end)) \<and>
           (t1 = None \<longrightarrow> start = DateOnly sd \<and> end = DateOnly sd \<and> top) \<and>
           (\<forall>a b. t1 = Some a \<and> t2 = Some b \<longrightarrow>
              (\<exists>c1 c2 ed. strptime_time a = Some c1 \<and> strptime_time b = Some c2 \<and>
                 (case d2 of None \<Rightarrow> ed = sd | Some d \<Rightarrow> strptime_date d = Some ed) \<and>
                 start = DateTime sd c1 \<and> end = DateTime ed c2 \<and> \<not> top))"
    if v: "strptime_date d1 = Some sd" "token_parses strptime_time t1"
          "token_parses strptime_date d2" "token_parses strptime_time t2" for sd
  proof (cases t1)
    case None
    with shape have "d2 = None" "t2 = None" by simp_all
    with None m v(1) show ?thesis
      by (auto simp: get_time_from_line_def and_then_def get_date_from_match_Some
            get_from_match_None)
  next
    case (Some a)
    with shape obtain b where b: "t2 = Some b" by auto
    from v(2) Some obtain c1 where c1: "strptime_time a = Some c1"
      by (auto simp: token_parses_def)
    from v(4) b obtain c2 where c2: "strptime_time b = Some c2"
      by (auto simp: token_parses_def)
    show ?thesis
    proof (cases d2)
      case None
      with Some b c1 c2 m v(1) show ?thesis
        by (auto simp: get_time_from_line_def and_then_def get_date_from_match_Some
              get_time_from_match_Some get_from_match_None combine_def)
    next
      case (Some d)
      with v(3) obtain ed where ed: "strptime_date d = Some ed"
        by (auto simp: token_parses_def)
      with Some \<open>t1 = Some a\<close> b c1 c2 m v(1) show ?thesis
        by (auto simp: get_time_from_line_def and_then_def get_date_from_match_Some
              get_time_from_match_Some get_from_match_None combine_def)
    qed
  qed
  have refused: "get_time_from_line line = Inl ValueError"
    if r: "\<not> (token_parses strptime_date (Some d1) \<and> token_parses strptime_time t1
          \<and> token_parses strptime_date d2 \<and> token_parses strptime_time t2)"
  proof (cases "strptime_date d1")
    case None
    with m ne(1) show ?thesis
      by (simp add: get_time_from_line_def and_then_def get_date_from_match_refused)
  next
    case (Some sd)
    note sd = get_date_from_match_Some[OF Some]
    show ?thesis
    proof (cases t1)
      case None
      with shape r Some show ?thesis by (simp add: token_parses_def)
    next
      case t1: (Some a)
      with shape obtain b where b: "t2 = Some b" by auto
      from ne t1 b have ab: "a \<noteq> []" "b \<noteq> []" by simp_all
      show ?thesis
      proof (cases "strptime_time a")
        case None
        with m t1 sd ab show ?thesis
          by (simp add: get_time_from_line_def and_then_def get_time_from_match_refused)
      next
        case c1: (Some c1)
        note st = get_time_from_match_Some[OF c1]
        show ?thesis
        proof (cases d2)
          case None
          with r Some t1 b c1 have "strptime_time b = None"
            by (auto simp: token_parses_def)
          with m t1 b sd st ab None show ?thesis
            by (simp add: get_time_from_line_def and_then_def get_time_from_match_refused
                  get_from_match_None combine_def)
        next
          case d2: (Some d)
          with ne have d: "d \<noteq> []" by simp
          show ?thesis
          proof (cases "strptime_date d")
            case None
            with m t1 b sd st d d2 show ?thesis
              by (simp add: get_time_from_line_def and_then_def get_date_from_match_refused
                    combine_def)
          next
            case ed: (Some ed)
            with r Some t1 b c1 d2 have "strptime_time b = None"
              by (auto simp: token_parses_def)
            with m t1 b sd st ab d2 get_date_from_match_Some[OF ed] show ?thesis
              by (simp add: get_time_from_line_def and_then_def get_time_from_match_refused
                    combine_def)
          qed
        qed
      qed
    qed
  qed
  from tok rules refused show ?thesis by blast
qed

lemma time_tokens_example:
  "time_tokens time_line_example = Some (Some ''8/4-2016'', Some ''17:30'', Some ''9/4-2016'', Some ''01:00'')"
  unfolding time_line_example_def by code_simp

text \<open>
  The rules at the line of scenario C, a range over two days, and at a line with
  fullwidth digits; and the refusal at a line whose day and month no calendar has.
\<close>

theorem time_range_rules_witness:
  "is_time_line time_line_example \<and>
   get_time_from_line time_line_example =
     Inr (Some (DateTime (Date 2016 4 8) (Clock 17 30)),
          Some (DateTime (Date 2016 4 9) (Clock 1 0)), False)
   \<and> is_time_line time_line_fullwidth
   \<and> get_time_from_line time_line_fullwidth =
     Inr (Some (DateOnly (Date 2016 3 14)), Some (DateOnly (Date 2016 3 14)), True)
   \<and> is_time_line time_line_refused
   \<and> get_time_from_line time_line_refused = Inl ValueError"
proof -
  have h: "is_time_line time_line_example" "is_time_line time_line_fullwidth"
          "is_time_line time_line_refused"
    by code_simp+
  have p: "strptime_date ''8/4-2016'' = Some (Date 2016 4 8)"
          "strptime_date ''9/4-2016'' = Some (Date 2016 4 9)"
          "strptime_time ''17:30'' = Some (Clock 17 30)"
          "strptime_time ''01:00'' = Some (Clock 1 0)"
          "strptime_date ''99/99-2016'' = None"
    by code_simp+
  from time_range_rules[OF h(1)] time_tokens_example p
  have 1: "get_time_from_line time_line_example =
     Inr (Some (DateTime (Date 2016 4 8) (Clock 17 30)),
          Some (DateTime (Date 2016 4 9) (Clock 1 0)), False)"
    by (auto simp: token_parses_def)
  have t2: "time_tokens time_line_fullwidth = Some (Some date_fullwidth, None, None, None)"
           "strptime_date date_fullwidth = Some (Date 2016 3 14)"
    by code_simp+
  from time_range_rules[OF h(2)] t2
  have 2: "get_time_from_line time_line_fullwidth =
     Inr (Some (DateOnly (Date 2016 3 14)), Some (DateOnly (Date 2016 3 14)), True)"
    by (auto simp: token_parses_def)
  have t3: "time_tokens time_line_refused = Some (Some ''99/99-2016'', None, None, None)"
    by code_simp
  from time_range_rules[OF h(3)] t3 p(5)
  have 3: "get_time_from_line time_line_refused = Inl ValueError"
    by (auto simp: token_parses_def)
  from h 1 2 3 show ?thesis by simp
qed

text \<open>
  The claim as first stated promises a result for every time-range line.  The line
  \<open>99/99-2016 Hele dagen\<close> is one (the classifier looks at the digits' places only),
  and the parser raises \<open>ValueError\<close> on it.
\<close>

theorem time_range_counterexample:
  "is_time_line time_line_refused \<and> get_time_from_line time_line_refused = Inl ValueError"
  by code_simp

section \<open>The line classifier\<close>

lemma contains_iff: "contains sub s \<longleftrightarrow> (\<exists>t. suffix t s \<and> prefix sub t)"
  by (induction s) (auto simp: suffix_Cons)

lemma re_search_not_None:
  "re_search r s \<noteq> None \<longleftrightarrow> (\<exists>t. suffix t s \<and> rx_match r no_groups t \<noteq> [])"
  by (simp add: re_search_None)

lemma prefix_append_drop:
  "prefix (a @ b) t \<longleftrightarrow> prefix a t \<and> prefix b (drop (length a) t)"
  by (auto simp: prefix_def)

lemma rx_is_location_match:
  "rx_match rx_is_location g t \<noteq> [] \<longleftrightarrow> prefix ''Lokale: '' t \<or> prefix ''Lokaler: '' t"
proof -
  have a: "prefix ''Lokale: '' t \<longleftrightarrow>
             prefix ''Lokale'' t \<and> prefix '': '' (drop (length ''Lokale'') t)"
    using prefix_append_drop[of "''Lokale''" "'': ''" t] by simp
  have b: "prefix ''Lokaler: '' t \<longleftrightarrow>
             prefix ''Lokale'' t \<and> prefix ''r'' (drop (length ''Lokale'') t)
             \<and> prefix '': '' (drop (length ''r'') (drop (length ''Lokale'') t))"
    using prefix_append_drop[of "''Lokale''" "''r: ''" t]
          prefix_append_drop[of "''r''" "'': ''" "drop (length ''Lokale'') t"] by simp
  show ?thesis
    unfolding a b rx_is_location_def by auto
qed

lemma rx_location_match:
  "rx_match rx_location g t \<noteq> [] \<longleftrightarrow> rx_match rx_is_location g t \<noteq> []"
  by (auto simp: rx_location_def rx_is_location_def any_text_def rep_rests_from_zero)

lemma is_location_line_iff:
  "is_location_line line \<longleftrightarrow> contains ''Lokale: '' line \<or> contains ''Lokaler: '' line"
  unfolding is_location_line_def re_search_not_None rx_is_location_match contains_iff by blast

lemma get_location_succeeds:
  "is_location_line line \<Longrightarrow> \<exists>p. get_location_from_line line = Inr p"
proof -
  assume "is_location_line line"
  then have "re_search rx_location line \<noteq> None"
    unfolding is_location_line_def re_search_not_None rx_location_match .
  then show ?thesis by (auto simp: get_location_from_line_def)
qed

lemma get_groups_succeeds:
  "is_groups_line line \<Longrightarrow> \<exists>p. get_groups_from_line line = Inr p"
proof -
  assume "is_groups_line line"
  then have "rx_match rx_groups no_groups line \<noteq> []"
    by (simp add: is_groups_line_def rx_groups_def any_text_def rep_rests_from_zero)
  then have "re_search rx_groups line \<noteq> None"
    unfolding re_search_not_None by blast
  then show ?thesis by (auto simp: get_groups_from_line_def)
qed

lemma get_ressources_succeeds:
  "is_ressources_line line \<Longrightarrow> \<exists>p. get_ressources_from_line line = Inr p"
proof -
  assume "is_ressources_line line"
  then have "rx_match rx_ressources no_groups line \<noteq> []"
    by (simp add: is_ressources_line_def rx_ressources_def any_text_def rep_rests_from_zero)
  then have "re_search rx_ressources line \<noteq> None"
    unfolding re_search_not_None by blast
  then show ?thesis by (auto simp: get_ressources_from_line_def)
qed

text \<open>
  Claim C7, as amended.  The marker of a location line is \<open>Lokale: \<close> or
  \<open>Lokaler: \<close>, the colon followed by one space.  Every line that begins with a
  marker is a location line, and a location line contains a marker.
\<close>

theorem location_line_marker:
  "(prefix ''Lokale: '' line \<or> prefix ''Lokaler: '' line \<longrightarrow> is_location_line line)
   \<and> (is_location_line line \<longrightarrow> contains ''Lokale: '' line \<or> contains ''Lokaler: '' line)"
proof -
  have "contains m line" if "prefix m line" for m
    using that unfolding contains_iff by blast
  then show ?thesis unfolding is_location_line_iff by blast
qed

text \<open>Both directions on two lines of a schedule.\<close>

theorem location_line_marker_witness:
  "is_location_line ''Lokale: 204'' \<and> is_location_line ''Lokaler: 204, 205''
   \<and> contains ''Lokaler: '' ''Lokaler: 204, 205''"
proof -
  have 1: "prefix ''Lokale: '' ''Lokale: 204''" by simp
  have 2: "prefix ''Lokaler: '' ''Lokaler: 204, 205''" by simp
  have 3: "\<not> contains ''Lokale: '' ''Lokaler: 204, 205''" by simp
  from location_line_marker[of "''Lokale: 204''"] 1
  have a: "is_location_line ''Lokale: 204''" by blast
  from location_line_marker[of "''Lokaler: 204, 205''"] 2
  have b: "is_location_line ''Lokaler: 204, 205''" by blast
  from location_line_marker[of "''Lokaler: 204, 205''"] b 3
  have "contains ''Lokaler: '' ''Lokaler: 204, 205''" by blast
  with a b show ?thesis by simp
qed

text \<open>
  The claim as first stated fails in both directions.  The line \<open>Lokale:204\<close> begins
  with \<open>Lokale:\<close> followed by text and is no location line; and the line
  \<open>Se Lokale: 204\<close>, which begins with neither \<open>Lokale:\<close> nor \<open>Lokaler:\<close>, is one,
  since the source searches the line for the marker.
\<close>

theorem location_line_counterexample:
  "\<not> is_location_line ''Lokale:204'' \<and> is_location_line ''Se Lokale: 204''
   \<and> \<not> prefix ''Lokale:'' ''Se Lokale: 204'' \<and> \<not> prefix ''Lokaler:'' ''Se Lokale: 204''
   \<and> prefix ''Lokale:'' ''Lokale:204''"
  by code_simp

section \<open>The lesson extractor and the filter\<close>

lemma and_then_Inr: "and_then r f = Inr y \<longleftrightarrow> (\<exists>x. r = Inr x \<and> f x = Inr y)"
  by (cases r) (simp_all add: and_then_def)

lemma and_then_Inl: "and_then r f = Inl e \<longleftrightarrow> r = Inl e \<or> (\<exists>x. r = Inr x \<and> f x = Inl e)"
  by (cases r) (simp_all add: and_then_def)

lemma extract_lesson_info_steps:
  assumes "find_status_and_title (splitlines title) = Inr (status, event_title, offset)"
  shows "extract_lesson_info title =
           and_then (get_info initial_info (drop offset (splitlines title)))
                    (\<lambda>v. Inr (construct status event_title v))"
  using assms by (simp add: extract_lesson_info_def and_then_def)

lemma extract_lesson_info_Inr:
  assumes "extract_lesson_info title = Inr r"
  shows "\<exists>status event_title offset v.
           find_status_and_title (splitlines title) = Inr (status, event_title, offset)
           \<and> get_info initial_info (drop offset (splitlines title)) = Inr v
           \<and> r = construct status event_title v"
  using assms
  by (auto simp: extract_lesson_info_def Let_def and_then_Inr)

lemma construct_fields:
  "\<exists>s d. construct status event_title v =
           (s, status, start_time v, end_time v, location v, d, is_top v)"
  by (simp add: construct_def Let_def split: prod.splits)

lemma info_status_construct: "info_status (construct status event_title v) = status"
  using construct_fields[of status event_title v] by (auto simp: info_status_def)

lemma get_status_from_line_eq:
  "get_status_from_line line =
     (if line = Aflyst then Inr ''cancelled''
      else if line = AEndret then Inr ''changed'' else Inl InvalidStatusError)"
  by (simp add: get_status_from_line_def LESSON_STATUS_def)

lemma markers_are_status_lines: "is_status_line AEndret" "is_status_line Aflyst" "AEndret \<noteq> Aflyst"
  by (simp_all add: is_status_line_def rx_status_def AEndret_def Aflyst_def AE_upper_def)

lemma find_status_short:
  "length lines < 2 \<Longrightarrow> find_status_and_title lines = Inr (None, [], 0)"
  by (simp add: find_status_and_title_def)

lemma find_status_cases:
  assumes "2 \<le> length lines"
  shows "find_status_and_title lines =
     (if is_status_line (lines ! 0) then
        (if lines ! 0 = Aflyst \<or> lines ! 0 = AEndret then
           Inr (Some (if lines ! 0 = Aflyst then ''cancelled'' else ''changed''),
                (if is_time_line (lines ! 1) then [] else lines ! 1),
                (if is_time_line (lines ! 1) then 1 else 2))
         else Inl InvalidStatusError)
      else Inr (None, (if is_time_line (lines ! 0) then [] else lines ! 0),
                (if is_time_line (lines ! 0) then 0 else 1)))"
  using assms
  by (simp add: find_status_and_title_def and_then_def get_status_from_line_eq)


text \<open>
  Claim C4, as amended.  The status that is returned is \<open>"changed"\<close> exactly when the
  block has at least two lines and its first line is the marker \<open>AEndret!\<close>, and
  \<open>"cancelled"\<close> exactly when it has at least two lines and its first line is
  \<open>Aflyst!\<close>; it is \<open>None\<close>, no marker read, which is the normal status, exactly
  when the block has fewer than two lines or its first line contains no marker.  A
  first line (of at least two) that contains a marker and is not equal to one makes
  the extraction fail with \<open>InvalidStatusError\<close>.
\<close>

theorem status_from_leading_line:
  "(\<forall>r. extract_lesson_info title = Inr r \<longrightarrow>
      (info_status r = Some ''changed'' \<longleftrightarrow>
         2 \<le> length (splitlines title) \<and> splitlines title ! 0 = AEndret) \<and>
      (info_status r = Some ''cancelled'' \<longleftrightarrow>
         2 \<le> length (splitlines title) \<and> splitlines title ! 0 = Aflyst) \<and>
      (info_status r = None \<longleftrightarrow>
         length (splitlines title) < 2 \<or> \<not> is_status_line (splitlines title ! 0)))
   \<and> (2 \<le> length (splitlines title) \<and> is_status_line (splitlines title ! 0)
        \<and> splitlines title ! 0 \<noteq> AEndret \<and> splitlines title ! 0 \<noteq> Aflyst
      \<longrightarrow> extract_lesson_info title = Inl InvalidStatusError)"
proof (intro conjI allI impI)
  fix r
  assume r: "extract_lesson_info title = Inr r"
  from extract_lesson_info_Inr[OF r] obtain status event_title offset v where
    f: "find_status_and_title (splitlines title) = Inr (status, event_title, offset)" and
    st: "info_status r = status"
    by (auto simp: info_status_construct)
  show "info_status r = Some ''changed'' \<longleftrightarrow>
         2 \<le> length (splitlines title) \<and> splitlines title ! 0 = AEndret"
  proof (cases "2 \<le> length (splitlines title)")
    case True
    from f show ?thesis
      unfolding st find_status_cases[OF True]
      using True markers_are_status_lines by (auto split: if_splits)
  next
    case False
    with f show ?thesis unfolding st by (simp add: find_status_short)
  qed
  show "info_status r = Some ''cancelled'' \<longleftrightarrow>
         2 \<le> length (splitlines title) \<and> splitlines title ! 0 = Aflyst"
  proof (cases "2 \<le> length (splitlines title)")
    case True
    from f show ?thesis
      unfolding st find_status_cases[OF True]
      using True markers_are_status_lines by (auto split: if_splits)
  next
    case False
    with f show ?thesis unfolding st by (simp add: find_status_short)
  qed
  show "info_status r = None \<longleftrightarrow>
         length (splitlines title) < 2 \<or> \<not> is_status_line (splitlines title ! 0)"
  proof (cases "2 \<le> length (splitlines title)")
    case True
    from f show ?thesis
      unfolding st find_status_cases[OF True]
      using True by (auto split: if_splits)
  next
    case False
    with f show ?thesis unfolding st by (simp add: find_status_short)
  qed
next
  assume a: "2 \<le> length (splitlines title) \<and> is_status_line (splitlines title ! 0)
        \<and> splitlines title ! 0 \<noteq> AEndret \<and> splitlines title ! 0 \<noteq> Aflyst"
  then have "find_status_and_title (splitlines title) = Inl InvalidStatusError"
    by (simp add: find_status_cases)
  then show "extract_lesson_info title = Inl InvalidStatusError"
    by (simp add: extract_lesson_info_def and_then_def)
qed

lemma get_info_no_time_payload:
  "(header_section v \<longrightarrow>
      (\<forall>l \<in> set (takeWhile (\<lambda>l. l \<noteq> []) ls). \<not> is_time_line l \<and> carries_payload l)) \<Longrightarrow>
   location v \<noteq> Some [] \<Longrightarrow>
   \<exists>v'. get_info v ls = Inr v' \<and> start_time v' = start_time v
        \<and> end_time v' = end_time v \<and> is_top v' = is_top v \<and> location v' \<noteq> Some []"
proof (induction ls arbitrary: v)
  case Nil
  then show ?case by simp
next
  case (Cons line rest)
  show ?case
  proof (cases "header_section v")
    case False
    with Cons.IH[of "v\<lparr>description := add_line_to_text line (description v)\<rparr>"] Cons.prems(2)
    show ?thesis by simp
  next
    case hs: True
    show ?thesis
    proof (cases "line = []")
      case True
      with hs Cons.IH[of "v\<lparr>header_section := False\<rparr>"] Cons.prems(2) show ?thesis by simp
    next
      case ne: False
      with hs Cons.prems(1) have nt: "\<not> is_time_line line" and cp: "carries_payload line"
        and rest: "\<forall>l \<in> set (takeWhile (\<lambda>l. l \<noteq> []) rest). \<not> is_time_line l \<and> carries_payload l"
        by simp_all
      consider (loc) "is_location_line line"
        | (grp) "\<not> is_location_line line" "is_groups_line line"
        | (res) "\<not> is_location_line line" "\<not> is_groups_line line" "is_ressources_line line"
        | (free) "\<not> is_location_line line" "\<not> is_groups_line line" "\<not> is_ressources_line line"
        by blast
      then show ?thesis
      proof cases
        case loc
        from get_location_succeeds[OF loc] obtain p where p: "get_location_from_line line = Inr p" ..
        with cp loc have "p \<noteq> []" by (auto simp: carries_payload_def)
        with Cons.IH[of "v\<lparr>location := Some p\<rparr>"] rest hs ne nt loc p
        show ?thesis by (simp add: and_then_def)
      next
        case grp
        from get_groups_succeeds[OF grp(2)] obtain p where p: "get_groups_from_line line = Inr p" ..
        from Cons.IH[of "v\<lparr>groups := p\<rparr>"] rest hs ne nt grp p Cons.prems(2)
        show ?thesis by (simp add: and_then_def)
      next
        case res
        from get_ressources_succeeds[OF res(3)] obtain p where
          p: "get_ressources_from_line line = Inr p" ..
        from Cons.IH[of "v\<lparr>ressources := p\<rparr>"] rest hs ne nt res p Cons.prems(2)
        show ?thesis by (simp add: and_then_def)
      next
        case free
        from Cons.IH[of "v\<lparr>summary := append_section_to_summary line (summary v)\<rparr>"]
          rest hs ne nt free Cons.prems(2)
        show ?thesis by simp
      qed
    qed
  qed
qed

text \<open>
  Claim C6, as amended.  When the status and title lines are accepted, no line of
  the header section is a time-range line, and every header line carries a payload
  behind the markers it is recognized by, the extraction does not fail: it returns
  a tuple whose start and end are \<open>None\<close> and whose \<open>is_top\<close> is false.  The tile is
  then dropped when the status is \<open>"cancelled"\<close> and \<open>show_cancelled\<close> is false, and
  becomes a lesson without start and end in every other case.
\<close>

theorem no_time_line_lesson:
  assumes "data_additionalinfo el = Some title"
    and "find_status_and_title (splitlines title) = Inr (status, event_title, offset)"
    and "\<forall>l \<in> set (header_lines offset (splitlines title)). \<not> is_time_line l \<and> carries_payload l"
  shows "\<exists>summary' location' description'.
           extract_lesson_info title =
             Inr (summary', status, None, None, location', description', False)
           \<and> location' \<noteq> Some []
           \<and> (status = Some ''cancelled'' \<and> \<not> show_cancelled \<longrightarrow>
                parse_element_to_lesson el show_top show_cancelled = Inr None)
           \<and> (\<not> (status = Some ''cancelled'' \<and> \<not> show_cancelled) \<longrightarrow>
                (\<exists>id link. parse_element_to_lesson el show_top show_cancelled =
                   Inr (Some (Lesson id summary' status None None location' description' link))))"
proof -
  from get_info_no_time_payload[of initial_info "drop offset (splitlines title)"] assms(3)
  obtain v where v: "get_info initial_info (drop offset (splitlines title)) = Inr v"
    "start_time v = None" "end_time v = None" "\<not> is_top v" "location v \<noteq> Some []"
    by (auto simp: header_lines_def initial_info_def)
  from construct_fields[of status event_title v] v obtain s d where
    e: "extract_lesson_info title = Inr (s, status, None, None, location v, d, False)"
    unfolding extract_lesson_info_steps[OF assms(2)] by (auto simp: and_then_def)
  from e assms(1) have
    "(status = Some ''cancelled'' \<and> \<not> show_cancelled \<longrightarrow>
        parse_element_to_lesson el show_top show_cancelled = Inr None)
     \<and> (\<not> (status = Some ''cancelled'' \<and> \<not> show_cancelled) \<longrightarrow>
          (\<exists>id link. parse_element_to_lesson el show_top show_cancelled =
             Inr (Some (Lesson id s status None None (location v) d link))))"
    by (auto simp: parse_element_to_lesson_def and_then_def Let_def split: prod.splits option.splits)
  with e v(5) show ?thesis by blast
qed

text \<open>
  Claim C10.  For a block of fewer than two lines no status line and no title line
  is taken off: the loop runs over all its lines, with no status and the empty event
  title, and the status returned is \<open>None\<close>, the normal status.  A single line that
  is not empty and is no time-range, location, groups or resources line is appended
  to the summary, which after the removal of the teacher prefixes and with the empty
  event title in front of it is the summary returned.
\<close>

theorem short_block_not_stripped:
  assumes "length (splitlines title) < 2"
  shows "extract_lesson_info title =
           and_then (get_info initial_info (splitlines title))
                    (\<lambda>v. Inr (construct None [] v))
         \<and> (\<forall>r. extract_lesson_info title = Inr r \<longrightarrow> info_status r = None)
         \<and> (\<forall>l. splitlines title = [l] \<and> l \<noteq> [] \<and> \<not> is_time_line l \<and> \<not> is_location_line l
                 \<and> \<not> is_groups_line l \<and> \<not> is_ressources_line l \<longrightarrow>
               extract_lesson_info title =
                 Inr (prepend_section_to_summary [] (remove_extra_text l),
                      None, None, None, None, None, False))"
proof -
  have f: "find_status_and_title (splitlines title) = Inr (None, [], 0)"
    using assms by (rule find_status_short)
  have e: "extract_lesson_info title =
           and_then (get_info initial_info (splitlines title))
                    (\<lambda>v. Inr (construct None [] v))"
    using extract_lesson_info_steps[OF f] by simp
  have s: "info_status r = None" if "extract_lesson_info title = Inr r" for r
    using that unfolding e by (auto simp: and_then_Inr info_status_construct)
  have t: "extract_lesson_info title =
                 Inr (prepend_section_to_summary [] (remove_extra_text l),
                      None, None, None, None, None, False)"
    if "splitlines title = [l] \<and> l \<noteq> [] \<and> \<not> is_time_line l \<and> \<not> is_location_line l
                 \<and> \<not> is_groups_line l \<and> \<not> is_ressources_line l" for l
    using that unfolding e
    by (simp add: and_then_def initial_info_def construct_def summary_before_groups_def
          description_before_groups_def append_section_to_summary_def)
  from e s t show ?thesis by blast
qed

text \<open>
  Claim C2.  When the groups are not empty they go in front of the summary, with the
  separator between them and a summary that is not empty.  Then, when the groups do
  not contain \<open>Alle\<close>, the event title and two newlines go in front of the
  description and the summary gets no title; when they do contain \<open>Alle\<close>, the event
  title goes in front of the summary with the separator, and the description gets no
  title.  When the groups are empty the event title goes in front of the summary,
  with the separator before a summary that is not empty, and the description gets
  no title.
\<close>

theorem groups_and_title_placement:
  assumes "find_status_and_title (splitlines title) = Inr (status, event_title, offset)"
    and "get_info initial_info (drop offset (splitlines title)) = Inr v"
  shows "\<exists>summary' description'.
           extract_lesson_info title =
             Inr (summary', status, start_time v, end_time v, location v, description', is_top v)
           \<and> (groups v \<noteq> [] \<and> \<not> contains ''Alle'' (groups v) \<longrightarrow>
                summary' = groups v @ (if summary_before_groups v = [] then []
                                       else SPACER @ summary_before_groups v)
                \<and> description' =
                    Some (event_title @ [CHR 0x0A, CHR 0x0A] @ description_before_groups v))
           \<and> (groups v \<noteq> [] \<and> contains ''Alle'' (groups v) \<longrightarrow>
                summary' = event_title @ SPACER @ groups v
                             @ (if summary_before_groups v = [] then []
                                else SPACER @ summary_before_groups v)
                \<and> description' = (if description_before_groups v = [] then None
                                   else Some (description_before_groups v)))
           \<and> (groups v = [] \<longrightarrow>
                summary' = event_title @ (if summary_before_groups v = [] then []
                                          else SPACER @ summary_before_groups v)
                \<and> description' = (if description_before_groups v = [] then None
                                   else Some (description_before_groups v)))"
  unfolding extract_lesson_info_steps[OF assms(1)] using assms(2)
  by (auto simp: and_then_def construct_def prepend_section_to_summary_def Let_def)

text \<open>
  Claim C8.  When the extraction returns, \<open>_parse_element_to_lesson\<close> gives \<open>None\<close> if
  \<open>is_top\<close> is true and \<open>show_top\<close> is false, gives \<open>None\<close> if the status is
  \<open>"cancelled"\<close> and \<open>show_cancelled\<close> is false, and in every other case gives the
  lesson with the extracted fields.
\<close>

theorem lesson_filter:
  assumes "data_additionalinfo el = Some title"
    and "extract_lesson_info title =
           Inr (summary', status, start, end, location', description', top_flag)"
  shows "(top_flag \<and> \<not> show_top \<longrightarrow> parse_element_to_lesson el show_top show_cancelled = Inr None)
       \<and> (status = Some ''cancelled'' \<and> \<not> show_cancelled \<longrightarrow>
            parse_element_to_lesson el show_top show_cancelled = Inr None)
       \<and> (\<not> (top_flag \<and> \<not> show_top) \<and> \<not> (status = Some ''cancelled'' \<and> \<not> show_cancelled) \<longrightarrow>
            (\<exists>id link. parse_element_to_lesson el show_top show_cancelled =
               Inr (Some (Lesson id summary' status start end location' description' link))))"
  using assms
  by (auto simp: parse_element_to_lesson_def and_then_def Let_def split: prod.splits option.splits)


text \<open>
  A cancelled lesson (scenario B), and a block whose first line has more text than
  the marker.
\<close>

theorem status_from_leading_line_witness:
  "extract_lesson_info block_cancelled =
     Inr (''Math 1a'', Some ''cancelled'', Some (DateOnly (Date 2016 3 14)),
          Some (DateOnly (Date 2016 3 14)), None, None, True)
   \<and> 2 \<le> length (splitlines block_cancelled) \<and> splitlines block_cancelled ! 0 = Aflyst
   \<and> is_status_line (splitlines block_bad_status ! 0)
   \<and> extract_lesson_info block_bad_status = Inl InvalidStatusError"
proof -
  have e: "extract_lesson_info block_cancelled =
     Inr (''Math 1a'', Some ''cancelled'', Some (DateOnly (Date 2016 3 14)),
          Some (DateOnly (Date 2016 3 14)), None, None, True)"
    by code_simp
  have s: "info_status (''Math 1a'', Some ''cancelled'', Some (DateOnly (Date 2016 3 14)),
          Some (DateOnly (Date 2016 3 14)), None, None, True) = Some ''cancelled''"
    by (simp add: info_status_def)
  from status_from_leading_line[of block_cancelled] e s
  have a: "2 \<le> length (splitlines block_cancelled) \<and> splitlines block_cancelled ! 0 = Aflyst"
    by simp
  have b: "2 \<le> length (splitlines block_bad_status)"
          "is_status_line (splitlines block_bad_status ! 0)"
          "splitlines block_bad_status ! 0 \<noteq> AEndret"
          "splitlines block_bad_status ! 0 \<noteq> Aflyst"
    by code_simp+
  from status_from_leading_line[of block_bad_status] b
  have "extract_lesson_info block_bad_status = Inl InvalidStatusError" by blast
  with e a b(2) show ?thesis by simp
qed

text \<open>
  The claim as first stated gives the normal status, and no status error, to every
  first line that is not a marker.  This first line is not a marker, and the
  extraction raises \<open>InvalidStatusError\<close>.
\<close>

theorem status_from_leading_line_counterexample:
  "splitlines block_bad_status = [''Aflyst! (flyttet)'', ''Math 1a'', ''14/3-2016 Hele dagen'']
   \<and> ''Aflyst! (flyttet)'' \<noteq> AEndret \<and> ''Aflyst! (flyttet)'' \<noteq> Aflyst
   \<and> extract_lesson_info block_bad_status = Inl InvalidStatusError"
  by code_simp

text \<open>
  A block with a title and a location and no time, which becomes a lesson; and a
  cancelled block without a time, which the filter drops.
\<close>

theorem no_time_line_lesson_witness:
  "find_status_and_title (splitlines block_no_time) = Inr (None, ''Math 1a'', 1)
   \<and> list_all (\<lambda>l. \<not> is_time_line l \<and> carries_payload l) (header_lines 1 (splitlines block_no_time))
   \<and> (\<exists>summary' description' id link.
         extract_lesson_info block_no_time =
           Inr (summary', None, None, None, Some ''204'', description', False)
         \<and> parse_element_to_lesson (tile_of block_no_time) False False =
             Inr (Some (Lesson id summary' None None None (Some ''204'') description' link)))
   \<and> find_status_and_title (splitlines block_cancelled_no_time)
        = Inr (Some ''cancelled'', ''Math 1a'', 2)
   \<and> parse_element_to_lesson (tile_of block_cancelled_no_time) False False = Inr None"
proof -
  have f: "find_status_and_title (splitlines block_no_time) = Inr (None, ''Math 1a'', 1)"
          "find_status_and_title (splitlines block_cancelled_no_time)
             = Inr (Some ''cancelled'', ''Math 1a'', 2)"
    by code_simp+
  have h: "list_all (\<lambda>l. \<not> is_time_line l \<and> carries_payload l)
             (header_lines 1 (splitlines block_no_time))"
          "list_all (\<lambda>l. \<not> is_time_line l \<and> carries_payload l)
             (header_lines 2 (splitlines block_cancelled_no_time))"
    by code_simp+
  have d: "data_additionalinfo (tile_of b) = Some b" for b
    by (simp add: tile_of_def)
  have l: "extract_lesson_info block_no_time =
             Inr (''Math 1a'' @ SPACER @ ''204'', None, None, None, Some ''204'', None, False)"
    by code_simp
  from h have b: "\<forall>l \<in> set (header_lines 1 (splitlines block_no_time)).
                    \<not> is_time_line l \<and> carries_payload l"
    "\<forall>l \<in> set (header_lines 2 (splitlines block_cancelled_no_time)).
                    \<not> is_time_line l \<and> carries_payload l"
    by (simp_all add: list_all_iff)
  from no_time_line_lesson[OF d f(1) b(1), of False False] l
  have 1: "\<exists>summary' description' id link.
         extract_lesson_info block_no_time =
           Inr (summary', None, None, None, Some ''204'', description', False)
         \<and> parse_element_to_lesson (tile_of block_no_time) False False =
             Inr (Some (Lesson id summary' None None None (Some ''204'') description' link))"
    by auto
  from no_time_line_lesson[OF d f(2) b(2), of False False]
  have 2: "parse_element_to_lesson (tile_of block_cancelled_no_time) False False = Inr None"
    by auto
  from f h(1) 1 2 show ?thesis by simp
qed

text \<open>
  The claim as first stated makes the extraction of such a block fail.  No line of
  this block is a time-range line; the extraction returns, and the tile becomes a
  lesson without start and end.
\<close>

theorem no_time_line_counterexample:
  "filter is_time_line (splitlines block_no_time) = []
   \<and> extract_lesson_info block_no_time =
       Inr (''Math 1a'' @ SPACER @ ''204'', None, None, None, Some ''204'', None, False)
   \<and> parse_element_to_lesson (tile_of block_no_time) False False =
       Inr (Some (Lesson None (''Math 1a'' @ SPACER @ ''204'') None None None (Some ''204'') None None))"
  by code_simp

text \<open>
  The block that is the marker \<open>Aflyst!\<close> alone: the status is \<open>None\<close> and the marker
  is the summary, behind the separator that follows the empty event title.
\<close>

theorem short_block_not_stripped_witness:
  "splitlines Aflyst = [Aflyst]
   \<and> extract_lesson_info Aflyst = Inr (SPACER @ Aflyst, None, None, None, None, None, False)"
proof -
  have l: "length (splitlines Aflyst) < 2" by code_simp
  have c: "splitlines Aflyst = [Aflyst] \<and> Aflyst \<noteq> [] \<and> \<not> is_time_line Aflyst
           \<and> \<not> is_location_line Aflyst \<and> \<not> is_groups_line Aflyst \<and> \<not> is_ressources_line Aflyst"
    by code_simp
  have r: "prepend_section_to_summary [] (remove_extra_text Aflyst) = SPACER @ Aflyst"
    by code_simp
  from short_block_not_stripped[OF l] c
  have "extract_lesson_info Aflyst =
          Inr (prepend_section_to_summary [] (remove_extra_text Aflyst),
               None, None, None, None, None, False)"
    by blast
  with c r show ?thesis by simp
qed

text \<open>
  Claim C5, where the source does not do what the claim says.  A location, groups or
  resources line that ends with its marker is recognized, its getter returns the
  empty text, since \<open>(.*)\<close> matches no characters, and the extraction of a block with
  such lines returns a tuple, here with the location \<open>""\<close>.  The \<open>raise\<close> in the
  getters is never reached from \<open>_extract_lesson_info\<close>.
\<close>

theorem empty_payload_accepted:
  "is_location_line ''Lokale: '' \<and> is_groups_line ''Hold: '' \<and> is_ressources_line ''Ressourcer: ''
   \<and> get_location_from_line ''Lokale: '' = Inr []
   \<and> get_groups_from_line ''Hold: '' = Inr []
   \<and> get_ressources_from_line ''Ressourcer: '' = Inr []
   \<and> extract_lesson_info block_empty_markers =
       Inr ([], None, Some (DateOnly (Date 2016 3 14)), Some (DateOnly (Date 2016 3 14)),
            Some [], None, True)"
  by code_simp


text \<open>
  Scenario E: a lesson for all groups, the same lesson for one group, and the same
  lesson without a groups line.
\<close>

theorem groups_and_title_placement_witness:
  "extract_lesson_info block_all_groups =
     Inr (''Faellestime'' @ SPACER @ ''Alle 1a, 1b'' @ SPACER @ ''204'', None,
          Some (DateTime (Date 2016 3 14) (Clock 15 20)),
          Some (DateTime (Date 2016 3 14) (Clock 16 50)),
          Some ''204'', Some ''Husk bogen'', False)
   \<and> extract_lesson_info block_one_group =
     Inr (''1a'' @ SPACER @ ''204'', None,
          Some (DateTime (Date 2016 3 14) (Clock 15 20)),
          Some (DateTime (Date 2016 3 14) (Clock 16 50)),
          Some ''204'', Some (''Faellestime'' @ nl @ nl @ ''Husk bogen''), False)
   \<and> extract_lesson_info block_without_groups =
     Inr (''Faellestime'' @ SPACER @ ''204'', None,
          Some (DateTime (Date 2016 3 14) (Clock 15 20)),
          Some (DateTime (Date 2016 3 14) (Clock 16 50)),
          Some ''204'', Some ''Husk bogen'', False)"
proof -
  have f: "find_status_and_title (splitlines block_all_groups) = Inr (None, ''Faellestime'', 1)"
          "find_status_and_title (splitlines block_one_group) = Inr (None, ''Faellestime'', 1)"
          "find_status_and_title (splitlines block_without_groups) = Inr (None, ''Faellestime'', 1)"
    by code_simp+
  have g: "get_info initial_info (drop 1 (splitlines block_all_groups))
             = Inr (info_with_groups ''Alle 1a, 1b'')"
          "get_info initial_info (drop 1 (splitlines block_one_group))
             = Inr (info_with_groups ''1a'')"
          "get_info initial_info (drop 1 (splitlines block_without_groups))
             = Inr (info_with_groups [])"
    by code_simp+
  have v: "groups (info_with_groups g) = g" "start_time (info_with_groups g) = Some (DateTime (Date 2016 3 14) (Clock 15 20))"
          "end_time (info_with_groups g) = Some (DateTime (Date 2016 3 14) (Clock 16 50))"
          "location (info_with_groups g) = Some ''204''" "\<not> is_top (info_with_groups g)" for g
    by (simp_all add: info_with_groups_def)
  have b: "summary_before_groups (info_with_groups g) = ''204''"
          "description_before_groups (info_with_groups g) = ''Husk bogen''" for g
    by (simp_all add: summary_before_groups_def description_before_groups_def info_with_groups_def
          remove_extra_text_def append_section_to_summary_def)
  have c: "contains ''Alle'' ''Alle 1a, 1b''" "\<not> contains ''Alle'' ''1a''"
    by simp_all
  from groups_and_title_placement[OF f(1) g(1)] v b c
  have 1: "extract_lesson_info block_all_groups =
     Inr (''Faellestime'' @ SPACER @ ''Alle 1a, 1b'' @ SPACER @ ''204'', None,
          Some (DateTime (Date 2016 3 14) (Clock 15 20)),
          Some (DateTime (Date 2016 3 14) (Clock 16 50)),
          Some ''204'', Some ''Husk bogen'', False)"
    by auto
  from groups_and_title_placement[OF f(2) g(2)] v b c
  have 2: "extract_lesson_info block_one_group =
     Inr (''1a'' @ SPACER @ ''204'', None,
          Some (DateTime (Date 2016 3 14) (Clock 15 20)),
          Some (DateTime (Date 2016 3 14) (Clock 16 50)),
          Some ''204'', Some (''Faellestime'' @ nl @ nl @ ''Husk bogen''), False)"
    by (auto simp: nl_def)
  from groups_and_title_placement[OF f(3) g(3)] v b
  have 3: "extract_lesson_info block_without_groups =
     Inr (''Faellestime'' @ SPACER @ ''204'', None,
          Some (DateTime (Date 2016 3 14) (Clock 15 20)),
          Some (DateTime (Date 2016 3 14) (Clock 16 50)),
          Some ''204'', Some ''Husk bogen'', False)"
    by auto
  from 1 2 3 show ?thesis by simp
qed

text \<open>
  The cancelled header entry of scenario B under three policies.
\<close>

theorem lesson_filter_witness:
  "parse_element_to_lesson tile_cancelled False True = Inr None
   \<and> parse_element_to_lesson tile_cancelled True False = Inr None
   \<and> (\<exists>id link. parse_element_to_lesson tile_cancelled True True =
         Inr (Some (Lesson id ''Math 1a'' (Some ''cancelled'') (Some (DateOnly (Date 2016 3 14)))
                           (Some (DateOnly (Date 2016 3 14))) None None link)))"
proof -
  have d: "data_additionalinfo tile_cancelled = Some block_cancelled"
    by (simp add: tile_cancelled_def)
  have e: "extract_lesson_info block_cancelled =
     Inr (''Math 1a'', Some ''cancelled'', Some (DateOnly (Date 2016 3 14)),
          Some (DateOnly (Date 2016 3 14)), None, None, True)"
    by code_simp
  from lesson_filter[OF d e, of False True]
  have 1: "parse_element_to_lesson tile_cancelled False True = Inr None" by simp
  from lesson_filter[OF d e, of True False]
  have 2: "parse_element_to_lesson tile_cancelled True False = Inr None" by simp
  from lesson_filter[OF d e, of True True]
  have 3: "\<exists>id link. parse_element_to_lesson tile_cancelled True True =
         Inr (Some (Lesson id ''Math 1a'' (Some ''cancelled'') (Some (DateOnly (Date 2016 3 14)))
                           (Some (DateOnly (Date 2016 3 14))) None None link))" by simp
  from 1 2 3 show ?thesis by simp
qed

end
